theory Spec2Isabelle
  imports Main
begin

text \<open>
  A model of \<open>src/transcribe.py\<close>: the script uploads a video to a staging bucket,
  asks a Gemini model for its transcription through one of two client libraries, writes
  the text to a local file and to an output bucket, and deletes the staged copy. Each
  function of the script is a definition of the same name; what the script does to the
  outside is recorded as a trace of events, and every call that can raise returns a sum.
  Imports are taken to succeed, and writing to standard output is taken not to raise.
\<close>

section \<open>Python strings and paths\<close>

text \<open>
  A Python \<open>str\<close> is modelled as a \<open>string\<close>. The operations below are the ones
  \<open>transcribe.py\<close> applies: \<open>str.lower\<close>, \<open>str.replace\<close> on single characters,
  \<open>str.strip\<close>, \<open>str.rfind\<close>, and the POSIX versions of \<open>os.path.basename\<close>,
  \<open>os.path.dirname\<close>, \<open>os.path.splitext\<close> and \<open>os.path.join\<close>. Case mapping and
  white space are those of the ASCII range; any other character is left as it is.
\<close>

definition lower_char :: "char \<Rightarrow> char" where
  "lower_char c =
     (let n = (of_char c :: nat) in if 65 \<le> n \<and> n \<le> 90 then char_of (n + 32) else c)"

definition lower :: "string \<Rightarrow> string" where
  "lower s = map lower_char s"

definition is_upper :: "char \<Rightarrow> bool" where
  "is_upper c = (let n = (of_char c :: nat) in 65 \<le> n \<and> n \<le> 90)"

definition replace_char :: "char \<Rightarrow> char \<Rightarrow> string \<Rightarrow> string" where
  "replace_char old new s = map (\<lambda>c. if c = old then new else c) s"

definition is_space :: "char \<Rightarrow> bool" where
  "is_space c = (let n = (of_char c :: nat) in (9 \<le> n \<and> n \<le> 13) \<or> (28 \<le> n \<and> n \<le> 32))"

definition strip :: "string \<Rightarrow> string" where
  "strip s = rev (dropWhile is_space (rev (dropWhile is_space s)))"

text \<open>\<open>s.rfind(c)\<close>: the index of the last occurrence of \<open>c\<close>, or \<open>-1\<close>.\<close>

definition rfind :: "string \<Rightarrow> char \<Rightarrow> int" where
  "rfind s c =
     (if c \<in> set s then int (length s) - 1 - int (length (takeWhile (\<lambda>x. x \<noteq> c) (rev s)))
      else - 1)"

definition basename :: "string \<Rightarrow> string" where
  "basename p = drop (nat (rfind p (CHR ''/'') + 1)) p"

definition dirname :: "string \<Rightarrow> string" where
  "dirname p =
     (let head = take (nat (rfind p (CHR ''/'') + 1)) p
      in if head \<noteq> [] \<and> head \<noteq> replicate (length head) (CHR ''/'')
         then rev (dropWhile (\<lambda>c. c = CHR ''/'') (rev head))
         else head)"

text \<open>
  \<open>os.path.splitext\<close>: the extension starts at the last dot, unless that dot comes
  before the last separator or only dots stand between the separator and it (the loop
  of the library that skips leading dots is the search for a character other than a dot
  in \<open>p[sepIndex+1:dotIndex]\<close>).
\<close>

definition splitext :: "string \<Rightarrow> string \<times> string" where
  "splitext p =
     (let sepIndex = rfind p (CHR ''/'');
          dotIndex = rfind p (CHR ''.'')
      in if dotIndex > sepIndex \<and>
            list_ex (\<lambda>c. c \<noteq> CHR ''.'')
              (take (nat (dotIndex - (sepIndex + 1))) (drop (nat (sepIndex + 1)) p))
         then (take (nat dotIndex) p, drop (nat dotIndex) p)
         else (p, []))"

definition join2 :: "string \<Rightarrow> string \<Rightarrow> string" where
  "join2 path b =
     (if b \<noteq> [] \<and> hd b = CHR ''/'' then b
      else if path = [] \<or> last path = CHR ''/'' then path @ b
      else path @ ''/'' @ b)"

definition os_path_join :: "string \<Rightarrow> string list \<Rightarrow> string" where
  "os_path_join a p = foldl join2 a p"

text \<open>\<open>str(n)\<close> for an integer: its decimal digits, with a sign when negative.\<close>

fun digits :: "nat \<Rightarrow> string" where
  "digits n = (if n < 10 then [char_of (48 + n)] else digits (n div 10) @ [char_of (48 + n mod 10)])"

declare digits.simps [simp del]

definition str_int :: "int \<Rightarrow> string" where
  "str_int i = (if i < 0 then ''-'' @ digits (nat (- i)) else digits (nat i))"

text \<open>Truthiness of an \<open>Optional[str]\<close>: \<open>None\<close> and the empty string are false.\<close>

definition truthy :: "string option \<Rightarrow> bool" where
  "truthy x = (case x of None \<Rightarrow> False | Some s \<Rightarrow> s \<noteq> [])"

text \<open>An exception carries the text that \<open>str(e)\<close> gives.\<close>

datatype exn = Exception string

fun str_exn :: "exn \<Rightarrow> string" where
  "str_exn (Exception m) = m"

section \<open>Naming\<close>

definition get_staging_bucket_name :: "string \<Rightarrow> string \<Rightarrow> string" where
  "get_staging_bucket_name project_id loc =
     (let safe_project = lower (replace_char (CHR ''.'') (CHR ''-'')
                                  (replace_char (CHR '':'') (CHR ''-'') project_id));
          safe_location = lower loc
      in ''gemini-transcriber-'' @ safe_project @ ''-'' @ safe_location)"

definition get_output_bucket_name :: "string \<Rightarrow> string" where
  "get_output_bucket_name project_id =
     (let safe_project = lower (replace_char (CHR ''.'') (CHR ''-'')
                                  (replace_char (CHR '':'') (CHR ''-'') project_id))
      in safe_project @ ''-gemini-video-transcribe'')"

definition sanitize_filename :: "(string \<Rightarrow> exn + string) \<Rightarrow> string \<Rightarrow> string" where
  "sanitize_filename translit filename =
     (let (name, ext) = splitext filename;
          name = (case translit name of Inl e \<Rightarrow> name | Inr latin \<Rightarrow> latin);
          name = lower name;
          name = replace_char (CHR '' '') (CHR ''_'') name
      in name @ ''.txt'')"

section \<open>The world outside the program\<close>

text \<open>
  Every library call that reaches outside the process is a field of the record \<open>world\<close>:
  it gives the outcome of the call, an exception (\<open>Inl\<close>) or a value (\<open>Inr\<close>). A streamed
  response is a lazy sequence: asking for the next element ends the sequence, yields a
  fragment with the rest of the sequence, or raises. A fragment is the \<open>text\<close> attribute
  of a response chunk, an \<open>Optional[str]\<close>.
\<close>

datatype 'a lazy_seq = StopIteration | Yield 'a "'a lazy_seq" | Raises exn

record world =
  gcloud_config_region :: "exn + string"
  gcloud_config_project :: "exn + string"
  google_auth_default :: "exn + string option"
  os_path_exists :: "string \<Rightarrow> bool"
  time_time :: int
  abspath_file :: string
  storage_Client :: "exn + unit"
  bucket_exists :: "string \<Rightarrow> exn + bool"
  bucket_create :: "string \<Rightarrow> string \<Rightarrow> exn + unit"
  blob_upload_from_filename :: "string \<Rightarrow> string \<Rightarrow> string \<Rightarrow> exn + unit"
  blob_upload_from_string :: "string \<Rightarrow> string \<Rightarrow> string \<Rightarrow> exn + unit"
  blob_delete :: "string \<Rightarrow> string \<Rightarrow> exn + unit"
  vertexai_init :: "string \<Rightarrow> string \<Rightarrow> exn + unit"
  GenerativeModel :: "string \<Rightarrow> exn + unit"
  model_generate_content :: "string \<Rightarrow> string \<Rightarrow> string \<Rightarrow> exn + string option lazy_seq"
  genai_Client :: "string \<Rightarrow> exn + unit"
  models_generate_content_stream :: "string \<Rightarrow> string \<Rightarrow> string \<Rightarrow> exn + string option lazy_seq"
  translit :: "string \<Rightarrow> exn + string"
  os_makedirs :: "string \<Rightarrow> exn + unit"
  open_write :: "string \<Rightarrow> string \<Rightarrow> exn + unit"

text \<open>
  What a run does is recorded as a list of events, in the order of execution: the text
  written to standard output, a printed traceback, the entry into each function that
  works on cloud storage or calls the inference service, each request for the next
  element of the response stream, and the two file system writes.
\<close>

datatype event =
    Stdout string
  | Traceback exn
  | EnsureBucket string string
  | UploadToGcs string string string
  | UploadTextToGcs string string string
  | DeleteBlob string string
  | TranscribeVideo string string string string string
  | TranscribeVideoGenai string string string string string string
  | NextFragment
  | MakeDirs string
  | OpenWrite string string

definition print :: "string \<Rightarrow> event" where
  "print s = Stdout (s @ [CHR 0x0A])"

section \<open>Storage functions\<close>

definition upload_to_gcs :: "world \<Rightarrow> string \<Rightarrow> string \<Rightarrow> string \<Rightarrow> (exn + string) \<times> event list" where
  "upload_to_gcs w bucket_name source_file_path destination_blob_name =
     (let t = [UploadToGcs bucket_name source_file_path destination_blob_name,
               print (''Uploading '' @ source_file_path @ '' to gs://'' @ bucket_name @ ''/''
                      @ destination_blob_name @ '' ...'')]
      in case storage_Client w of
           Inl e \<Rightarrow> (Inl e, t)
         | Inr _ \<Rightarrow>
            (case blob_upload_from_filename w bucket_name destination_blob_name source_file_path of
               Inl e \<Rightarrow> (Inl e, t)
             | Inr _ \<Rightarrow>
                (Inr (''gs://'' @ bucket_name @ ''/'' @ destination_blob_name),
                 t @ [print (''File uploaded to gs://'' @ bucket_name @ ''/''
                             @ destination_blob_name)])))"

text \<open>
  In \<open>ensure_bucket\<close> the client is built before the \<open>try\<close>, so its failure leaves the
  function; a failure of the existence check or of the creation is caught and reported.
\<close>

definition ensure_bucket_warning :: "string \<Rightarrow> exn \<Rightarrow> event list" where
  "ensure_bucket_warning bucket_name e =
     [print (''Warning: Issue checking/creating bucket '' @ bucket_name @ '': '' @ str_exn e),
      print ''Falling back to attempt straightforward usage...'']"

definition ensure_bucket :: "world \<Rightarrow> string \<Rightarrow> string \<Rightarrow> (exn + unit) \<times> event list" where
  "ensure_bucket w bucket_name loc =
     (case storage_Client w of
        Inl e \<Rightarrow> (Inl e, [EnsureBucket bucket_name loc])
      | Inr _ \<Rightarrow>
         (case bucket_exists w bucket_name of
            Inl e \<Rightarrow> (Inr (), EnsureBucket bucket_name loc # ensure_bucket_warning bucket_name e)
          | Inr found \<Rightarrow>
             if \<not> found then
               (let t = [EnsureBucket bucket_name loc,
                         print (''Bucket '' @ bucket_name @ '' not found. Creating in '' @ loc
                                @ ''...'')]
                in case bucket_create w bucket_name loc of
                     Inl e \<Rightarrow> (Inr (), t @ ensure_bucket_warning bucket_name e)
                   | Inr _ \<Rightarrow> (Inr (), t @ [print (''Created bucket: '' @ bucket_name)]))
             else (Inr (), [EnsureBucket bucket_name loc,
                            print (''Using existing bucket: '' @ bucket_name)])))"

definition upload_text_to_gcs :: "world \<Rightarrow> string \<Rightarrow> string \<Rightarrow> string \<Rightarrow> (exn + string) \<times> event list" where
  "upload_text_to_gcs w bucket_name destination_blob_name text_content =
     (let t = [UploadTextToGcs bucket_name destination_blob_name text_content]
      in case storage_Client w of
           Inl e \<Rightarrow> (Inl e, t)
         | Inr _ \<Rightarrow>
            (case blob_upload_from_string w bucket_name destination_blob_name text_content of
               Inl e \<Rightarrow> (Inl e, t)
             | Inr _ \<Rightarrow> (Inr (''gs://'' @ bucket_name @ ''/'' @ destination_blob_name), t)))"

definition delete_blob :: "world \<Rightarrow> string \<Rightarrow> string \<Rightarrow> (exn + unit) \<times> event list" where
  "delete_blob w bucket_name blob_name =
     (let t = [DeleteBlob bucket_name blob_name]
      in case storage_Client w of
           Inl e \<Rightarrow> (Inl e, t)
         | Inr _ \<Rightarrow>
            (case blob_delete w bucket_name blob_name of
               Inl e \<Rightarrow> (Inl e, t)
             | Inr _ \<Rightarrow> (Inr (), t @ [print (''Blob '' @ blob_name @ '' deleted.'')])))"

section \<open>Inference functions\<close>

text \<open>
  The loop of \<open>transcribe_video\<close> prints and appends the text of every response. A text
  that is \<open>None\<close> is printed as \<open>None\<close>, and appending it to a \<open>str\<close> raises.
\<close>

definition concat_none_error :: exn where
  "concat_none_error =
     Exception (''can only concatenate str (not '' @ [CHR 0x22] @ ''NoneType'' @ [CHR 0x22]
                @ '') to str'')"

fun transcribe_video_loop :: "string option lazy_seq \<Rightarrow> string \<Rightarrow> (exn + string) \<times> event list" where
  "transcribe_video_loop StopIteration full_text = (Inr full_text, [NextFragment])"
| "transcribe_video_loop (Raises e) full_text = (Inl e, [NextFragment])"
| "transcribe_video_loop (Yield response responses) full_text =
     (case response of
        None \<Rightarrow> (Inl concat_none_error, [NextFragment, Stdout ''None''])
      | Some text_chunk \<Rightarrow>
         (case transcribe_video_loop responses (full_text @ text_chunk) of
            (r, t) \<Rightarrow> (r, NextFragment # Stdout text_chunk # t)))"

definition default_prompt_text :: string where
  "default_prompt_text =
     ''Transcribe the audio from this video, paying special attention to Ukrainian speech. Provide the output as pure text.''"

definition transcribe_video ::
    "world \<Rightarrow> string \<Rightarrow> string \<Rightarrow> string \<Rightarrow> string \<Rightarrow> string \<Rightarrow> (exn + string) \<times> event list" where
  "transcribe_video w project_id loc model_name gcs_uri prompt_text =
     (let t0 = [TranscribeVideo project_id loc model_name gcs_uri prompt_text,
                print (''Initializing Vertex AI with project='' @ project_id @ '', location=''
                       @ loc)]
      in case vertexai_init w project_id loc of
           Inl e \<Rightarrow> (Inl e, t0)
         | Inr _ \<Rightarrow>
            (let t1 = t0 @ [print (''Loading model '' @ model_name @ ''...'')]
             in case GenerativeModel w model_name of
                  Inl e \<Rightarrow> (Inl e, t1)
                | Inr _ \<Rightarrow>
                   (let t2 = t1 @ [print ''Generating content...'']
                    in case model_generate_content w model_name gcs_uri prompt_text of
                         Inl e \<Rightarrow> (Inl e, t2)
                       | Inr responses \<Rightarrow>
                          (case transcribe_video_loop responses [] of
                             (Inl e, t) \<Rightarrow> (Inl e, t2 @ t)
                           | (Inr full_text, t) \<Rightarrow>
                              (Inr full_text, t2 @ t @ [print [CHR 0x0A]])))))"

text \<open>The loop of \<open>transcribe_video_genai\<close> skips a chunk whose text is \<open>None\<close> or empty.\<close>

fun transcribe_video_genai_loop :: "string option lazy_seq \<Rightarrow> string \<Rightarrow> (exn + string) \<times> event list" where
  "transcribe_video_genai_loop StopIteration full_text = (Inr full_text, [NextFragment])"
| "transcribe_video_genai_loop (Raises e) full_text = (Inl e, [NextFragment])"
| "transcribe_video_genai_loop (Yield chunk responses) full_text =
     (if truthy chunk then
        (case transcribe_video_genai_loop responses (full_text @ the chunk) of
           (r, t) \<Rightarrow> (r, NextFragment # Stdout (the chunk) # t))
      else
        (case transcribe_video_genai_loop responses full_text of
           (r, t) \<Rightarrow> (r, NextFragment # t)))"

definition transcribe_video_genai ::
    "world \<Rightarrow> string \<Rightarrow> string \<Rightarrow> string \<Rightarrow> string \<Rightarrow> string \<Rightarrow> string \<Rightarrow> (exn + string) \<times> event list" where
  "transcribe_video_genai w key project_id loc gcs_uri model_name prompt_text =
     (let t0 = [TranscribeVideoGenai key project_id loc gcs_uri model_name prompt_text,
                print (''Initializing GenAI Client for Vertex AI (Project: '' @ project_id
                       @ '', Location: '' @ loc @ '')...'')]
      in case genai_Client w key of
           Inl e \<Rightarrow> (Inl e, t0)
         | Inr _ \<Rightarrow>
            (let t1 = t0 @ [print (''Loading model '' @ model_name @ ''...''),
                            print ''Generating content...'']
             in case models_generate_content_stream w model_name gcs_uri prompt_text of
                  Inl e \<Rightarrow> (Inl e, t1)
                | Inr responses \<Rightarrow>
                   (case transcribe_video_genai_loop responses [] of
                      (Inl e, t) \<Rightarrow> (Inl e, t1 @ t)
                    | (Inr full_text, t) \<Rightarrow> (Inr full_text, t1 @ t @ [print [CHR 0x0A]]))))"

definition get_gcloud_region :: "world \<Rightarrow> string option" where
  "get_gcloud_region w =
     (case gcloud_config_region w of
        Inl e \<Rightarrow> None
      | Inr stdout \<Rightarrow>
         (let region = strip stdout
          in if region \<noteq> [] \<and> region \<noteq> ''(unset)'' then Some region else None))"

section \<open>The orchestrator\<close>

text \<open>
  The parsed command line. \<open>--location\<close> and \<open>--model\<close> are \<open>None\<close> when the flag is
  absent, and then take their defaults.
\<close>

record args =
  args_file_path :: string
  args_bucket :: "string option"
  args_project :: "string option"
  args_location :: "string option"
  args_model :: "string option"
  args_preview :: bool
  args_keep_gcs :: bool
  args_api_key :: "string option"

text \<open>
  The result of a run: the exit code of the process, the events in order, and the
  files the run has written with their content.
\<close>

record outcome =
  exit_code :: int
  trace :: "event list"
  files :: "string \<rightharpoonup> string"

definition location_of :: "world \<Rightarrow> args \<Rightarrow> string" where
  "location_of w a =
     (let default_region = (case get_gcloud_region w of Some r \<Rightarrow> r | None \<Rightarrow> ''us-central1'')
      in case args_location a of Some l \<Rightarrow> l | None \<Rightarrow> default_region)"

definition model_of :: "args \<Rightarrow> string" where
  "model_of a =
     (if args_preview a then ''gemini-3-pro-preview''
      else case args_model a of Some m \<Rightarrow> m | None \<Rightarrow> ''gemini-2.5-pro'')"

text \<open>Lines 236 to 251: the explicit argument, else the default credentials, else gcloud.\<close>

definition infer_project_id :: "world \<Rightarrow> args \<Rightarrow> string option" where
  "infer_project_id w a =
     (let project_id = args_project a;
          project_id =
            (if \<not> truthy project_id
             then (case google_auth_default w of Inl e \<Rightarrow> project_id | Inr found \<Rightarrow> found)
             else project_id)
      in if \<not> truthy project_id
         then (case gcloud_config_project w of
                 Inl e \<Rightarrow> project_id
               | Inr stdout \<Rightarrow> Some (strip stdout))
         else project_id)"

text \<open>Lines 259 to 263: the staging bucket is ensured only when its name is derived.\<close>

definition staging_bucket_name_of :: "world \<Rightarrow> args \<Rightarrow> string \<Rightarrow> string" where
  "staging_bucket_name_of w a project_id =
     (if \<not> truthy (args_bucket a) then get_staging_bucket_name project_id (location_of w a)
      else the (args_bucket a))"

definition handle_staging_bucket :: "world \<Rightarrow> args \<Rightarrow> string \<Rightarrow> (exn + unit) \<times> event list" where
  "handle_staging_bucket w a project_id =
     (if \<not> truthy (args_bucket a)
      then ensure_bucket w (get_staging_bucket_name project_id (location_of w a)) (location_of w a)
      else (Inr (), []))"

definition blob_name_of :: "world \<Rightarrow> args \<Rightarrow> string" where
  "blob_name_of w a =
     ''gemini-transcriber-staging/'' @ str_int (time_time w) @ ''_''
     @ basename (args_file_path a)"

text \<open>Lines 281 to 298: the choice of the inference function.\<close>

definition dispatch :: "world \<Rightarrow> args \<Rightarrow> string \<Rightarrow> string \<Rightarrow> (exn + string) \<times> event list" where
  "dispatch w a project_id gcs_uri =
     (if truthy (args_api_key a)
      then transcribe_video_genai w (the (args_api_key a)) project_id (location_of w a) gcs_uri
             (model_of a) default_prompt_text
      else transcribe_video w project_id (location_of w a) (model_of a) gcs_uri
             default_prompt_text)"

definition local_output_dir :: "world \<Rightarrow> string" where
  "local_output_dir w =
     os_path_join (dirname (dirname (abspath_file w))) [''workspace'', ''output'']"

definition local_output_path :: "world \<Rightarrow> args \<Rightarrow> string" where
  "local_output_path w a =
     os_path_join (local_output_dir w)
       [sanitize_filename (translit w) (basename (args_file_path a))]"

text \<open>Lines 300 to 318: the local file first, then the copy in the output bucket.\<close>

definition persist ::
    "world \<Rightarrow> args \<Rightarrow> string \<Rightarrow> string \<Rightarrow> (exn + unit) \<times> event list \<times> (string \<rightharpoonup> string)" where
  "persist w a output_bucket_name transcription_text =
     (let output_filename = sanitize_filename (translit w) (basename (args_file_path a));
          made = (if \<not> os_path_exists w (local_output_dir w)
                  then (os_makedirs w (local_output_dir w), [MakeDirs (local_output_dir w)])
                  else (Inr (), []))
      in case made of
           (Inl e, t0) \<Rightarrow> (Inl e, t0, Map.empty)
         | (Inr _, t0) \<Rightarrow>
            (let t1 = t0 @ [OpenWrite (local_output_path w a) transcription_text]
             in case open_write w (local_output_path w a) transcription_text of
                  Inl e \<Rightarrow> (Inl e, t1, Map.empty)
                | Inr _ \<Rightarrow>
                   (let t2 = t1 @ [print ([CHR 0x0A] @ ''[Local] Output saved to: ''
                                          @ local_output_path w a)];
                        fs = [local_output_path w a \<mapsto> transcription_text]
                    in case upload_text_to_gcs w output_bucket_name output_filename
                              transcription_text of
                         (Inr gcs_output_uri, t) \<Rightarrow>
                           (Inr (), t2 @ t @ [print (''[GCS] Output uploaded to: ''
                                                      @ gcs_output_uri)], fs)
                       | (Inl e, t) \<Rightarrow>
                           (Inr (), t2 @ t @ [print (''Warning: Failed to upload output to GCS: ''
                                                      @ str_exn e)], fs))))"

text \<open>Lines 325 to 330: the \<open>finally\<close> block.\<close>

definition cleanup :: "world \<Rightarrow> args \<Rightarrow> string \<Rightarrow> string \<Rightarrow> event list" where
  "cleanup w a staging_bucket_name blob_name =
     (if \<not> args_keep_gcs a
      then (case delete_blob w staging_bucket_name blob_name of
              (Inl e, t) \<Rightarrow> t @ [print (''Warning: Failed to cleanup GCS blob: '' @ str_exn e)]
            | (Inr _, t) \<Rightarrow> t)
      else [])"

text \<open>
  Lines 279 to 330: the \<open>try\<close> with its handler and its \<open>finally\<close>. The handler leaves
  with \<open>sys.exit(1)\<close>, and the \<open>finally\<close> block runs on both ways out.
\<close>

definition transcribe_and_persist ::
    "world \<Rightarrow> args \<Rightarrow> string \<Rightarrow> string \<Rightarrow> string \<Rightarrow> (exn + unit) \<times> event list \<times> (string \<rightharpoonup> string)" where
  "transcribe_and_persist w a project_id output_bucket_name gcs_uri =
     (case dispatch w a project_id gcs_uri of
        (Inl e, t) \<Rightarrow> (Inl e, t, Map.empty)
      | (Inr transcription_text, t) \<Rightarrow>
         (case persist w a output_bucket_name transcription_text of
            (r, t', fs) \<Rightarrow> (r, t @ t', fs)))"

definition process_upload ::
    "world \<Rightarrow> args \<Rightarrow> string \<Rightarrow> string \<Rightarrow> string \<Rightarrow> string \<Rightarrow> outcome" where
  "process_upload w a project_id staging_bucket_name output_bucket_name gcs_uri =
     (case transcribe_and_persist w a project_id output_bucket_name gcs_uri of
        (Inr _, t, fs) \<Rightarrow>
          \<lparr>exit_code = 0,
           trace = t @ cleanup w a staging_bucket_name (blob_name_of w a),
           files = fs\<rparr>
      | (Inl e, t, fs) \<Rightarrow>
          \<lparr>exit_code = 1,
           trace = t @ [print ([CHR 0x0A] @ ''An error occurred during transcription: ''
                               @ str_exn e),
                        Traceback e]
                   @ cleanup w a staging_bucket_name (blob_name_of w a),
           files = fs\<rparr>)"

text \<open>
  Lines 257 to 277, for a resolved project: the buckets, then the upload. An exception
  that leaves \<open>ensure_bucket\<close> is not handled in \<open>main\<close>: the interpreter prints the
  traceback and the process ends with code 1.
\<close>

definition prepend :: "event list \<Rightarrow> outcome \<Rightarrow> outcome" where
  "prepend t out = out\<lparr>trace := t @ trace out\<rparr>"

definition provision_and_run :: "world \<Rightarrow> args \<Rightarrow> string \<Rightarrow> outcome" where
  "provision_and_run w a project_id =
     (let loc = location_of w a;
          t0 = [print (''Using Project: '' @ project_id @ '', Region: '' @ loc)];
          staging_bucket_name = staging_bucket_name_of w a project_id
      in case handle_staging_bucket w a project_id of
           (Inl e, t1) \<Rightarrow> \<lparr>exit_code = 1, trace = t0 @ t1 @ [Traceback e], files = Map.empty\<rparr>
         | (Inr _, t1) \<Rightarrow>
            (let output_bucket_name = get_output_bucket_name project_id
             in case ensure_bucket w output_bucket_name loc of
                  (Inl e, t2) \<Rightarrow>
                    \<lparr>exit_code = 1, trace = t0 @ t1 @ t2 @ [Traceback e], files = Map.empty\<rparr>
                | (Inr _, t2) \<Rightarrow>
                   (case upload_to_gcs w staging_bucket_name (args_file_path a)
                           (blob_name_of w a) of
                      (Inl e, t3) \<Rightarrow>
                        \<lparr>exit_code = 1,
                         trace = t0 @ t1 @ t2 @ t3
                                 @ [print (''Error uploading to GCS: '' @ str_exn e)],
                         files = Map.empty\<rparr>
                    | (Inr gcs_uri, t3) \<Rightarrow>
                        prepend (t0 @ t1 @ t2 @ t3)
                          (process_upload w a project_id staging_bucket_name
                             output_bucket_name gcs_uri))))"

definition main :: "world \<Rightarrow> args \<Rightarrow> outcome" where
  "main w a =
     (if \<not> os_path_exists w (args_file_path a)
      then \<lparr>exit_code = 1,
            trace = [print (''Error: File '' @ [CHR 0x27] @ args_file_path a @ [CHR 0x27]
                            @ '' not found.'')],
            files = Map.empty\<rparr>
      else
        (let project_id = infer_project_id w a
         in if \<not> truthy project_id \<or> project_id = Some ''(unset)''
            then \<lparr>exit_code = 1,
                  trace = [print ''Error: Google Cloud Project ID needed. Use --project or set up application default credentials.''],
                  files = Map.empty\<rparr>
            else provision_and_run w a (the project_id)))"

section \<open>Observing a run\<close>

text \<open>
  The calls of a run are the events of its trace that enter one of the storage or
  inference functions; output, tracebacks, stream requests and file writes are left out.
\<close>

fun is_call :: "event \<Rightarrow> bool" where
  "is_call (EnsureBucket b l) = True"
| "is_call (UploadToGcs b p n) = True"
| "is_call (UploadTextToGcs b n s) = True"
| "is_call (DeleteBlob b n) = True"
| "is_call (TranscribeVideo p l m u q) = True"
| "is_call (TranscribeVideoGenai k p l u m q) = True"
| "is_call e = False"

definition calls :: "event list \<Rightarrow> event list" where
  "calls t = filter is_call t"

text \<open>The inference call that the choice of lines 281 to 298 makes.\<close>

definition inference_call :: "world \<Rightarrow> args \<Rightarrow> string \<Rightarrow> string \<Rightarrow> event" where
  "inference_call w a project_id gcs_uri =
     (if truthy (args_api_key a)
      then TranscribeVideoGenai (the (args_api_key a)) project_id (location_of w a) gcs_uri
             (model_of a) default_prompt_text
      else TranscribeVideo project_id (location_of w a) (model_of a) gcs_uri default_prompt_text)"

text \<open>
  The local write succeeds: the output directory exists or is made, and the file is
  opened and written.
\<close>

definition local_write_ok :: "world \<Rightarrow> args \<Rightarrow> string \<Rightarrow> bool" where
  "local_write_ok w a transcription_text =
     ((os_path_exists w (local_output_dir w) \<or> os_makedirs w (local_output_dir w) = Inr ())
      \<and> open_write w (local_output_path w a) transcription_text = Inr ())"

text \<open>
  The names a run computes on its way to the upload: the resolved project, the staging
  bucket and the address of the staged blob.
\<close>

definition project_of :: "world \<Rightarrow> args \<Rightarrow> string" where
  "project_of w a = the (infer_project_id w a)"

definition staging_of :: "world \<Rightarrow> args \<Rightarrow> string" where
  "staging_of w a = staging_bucket_name_of w a (project_of w a)"

definition gcs_uri_of :: "world \<Rightarrow> args \<Rightarrow> string" where
  "gcs_uri_of w a = ''gs://'' @ staging_of w a @ ''/'' @ blob_name_of w a"

text \<open>
  A run gets as far as the upload when the input file exists, a project is resolved and
  the storage client can be built (lemma \<open>upload_attempted_iff\<close>). The upload succeeds,
  and the staged blob exists, when \<open>upload_from_filename\<close> returns (lemma
  \<open>upload_returns_iff\<close>).
\<close>

definition reaches_upload :: "world \<Rightarrow> args \<Rightarrow> bool" where
  "reaches_upload w a =
     (os_path_exists w (args_file_path a) \<and> truthy (infer_project_id w a)
      \<and> infer_project_id w a \<noteq> Some ''(unset)'' \<and> storage_Client w = Inr ())"

definition upload_succeeds :: "world \<Rightarrow> args \<Rightarrow> bool" where
  "upload_succeeds w a =
     (blob_upload_from_filename w (staging_of w a) (blob_name_of w a) (args_file_path a) = Inr ())"

fun is_delete_blob :: "event \<Rightarrow> bool" where
  "is_delete_blob (DeleteBlob b n) = True"
| "is_delete_blob e = False"

fun is_inference :: "event \<Rightarrow> bool" where
  "is_inference (TranscribeVideo p l m u q) = True"
| "is_inference (TranscribeVideoGenai k p l u m q) = True"
| "is_inference e = False"

fun is_variant_b :: "event \<Rightarrow> bool" where
  "is_variant_b (TranscribeVideoGenai k p l u m q) = True"
| "is_variant_b e = False"

fun is_upload :: "event \<Rightarrow> bool" where
  "is_upload (UploadToGcs b p n) = True"
| "is_upload e = False"

fun ensures :: "string \<Rightarrow> event \<Rightarrow> bool" where
  "ensures name (EnsureBucket b l) = (b = name)"
| "ensures name e = False"

text \<open>A response stream that yields the elements of a list and then ends.\<close>

fun seq_of :: "'a list \<Rightarrow> 'a lazy_seq" where
  "seq_of [] = StopIteration"
| "seq_of (x # xs) = Yield x (seq_of xs)"

text \<open>The fragments a stream yields, and how it ends: normally or with an exception.\<close>

fun fragments :: "'a lazy_seq \<Rightarrow> 'a list" where
  "fragments StopIteration = []"
| "fragments (Raises e) = []"
| "fragments (Yield x s) = x # fragments s"

fun seq_end :: "'a lazy_seq \<Rightarrow> exn option" where
  "seq_end StopIteration = None"
| "seq_end (Raises e) = Some e"
| "seq_end (Yield x s) = seq_end s"

text \<open>
  The exception, if any, that the existence check or the creation of a bucket raises:
  the failures that the \<open>try\<close> of \<open>ensure_bucket\<close> covers.
\<close>

definition check_or_create_error :: "world \<Rightarrow> string \<Rightarrow> string \<Rightarrow> exn option" where
  "check_or_create_error w b l =
     (case bucket_exists w b of
        Inl e \<Rightarrow> Some e
      | Inr found \<Rightarrow>
         if \<not> found then (case bucket_create w b l of Inl e \<Rightarrow> Some e | Inr u \<Rightarrow> None)
         else None)"

text \<open>
  A world in which every call succeeds and the inference service streams three
  fragments, and a command line that names the input file and the project only.
\<close>

definition mock_world :: world where
  "mock_world =
     \<lparr>gcloud_config_region = Inr ''europe-west4'',
      gcloud_config_project = Inr ''(unset)'',
      google_auth_default = Inr None,
      os_path_exists = (\<lambda>p. p = ''input/Talk One.mp4''),
      time_time = 1700000000,
      abspath_file = ''/opt/app/src/transcribe.py'',
      storage_Client = Inr (),
      bucket_exists = (\<lambda>b. Inr False),
      bucket_create = (\<lambda>b l. Inr ()),
      blob_upload_from_filename = (\<lambda>b n p. Inr ()),
      blob_upload_from_string = (\<lambda>b n s. Inr ()),
      blob_delete = (\<lambda>b n. Inr ()),
      vertexai_init = (\<lambda>p l. Inr ()),
      GenerativeModel = (\<lambda>m. Inr ()),
      model_generate_content = (\<lambda>m u p. Inr (seq_of [Some ''Hel'', Some ''lo '', Some ''world''])),
      genai_Client = (\<lambda>k. Inr ()),
      models_generate_content_stream = (\<lambda>m u p. Inr (seq_of [Some ''Hel'', Some ''lo '', Some ''world''])),
      translit = (\<lambda>s. Inr s),
      os_makedirs = (\<lambda>d. Inr ()),
      open_write = (\<lambda>p s. Inr ())\<rparr>"

definition mock_args :: args where
  "mock_args =
     \<lparr>args_file_path = ''input/Talk One.mp4'',
      args_bucket = None,
      args_project = Some ''Example.com:Demo'',
      args_location = None,
      args_model = None,
      args_preview = False,
      args_keep_gcs = False,
      args_api_key = None\<rparr>"

section \<open>Basic facts about the calls of a run\<close>

lemma calls_append [simp]: "calls (s @ t) = calls s @ calls t"
  by (simp add: calls_def)

lemma calls_simps [simp]:
  "calls [] = []"
  "calls (Stdout s # t) = calls t"
  "calls (Traceback e # t) = calls t"
  "calls (NextFragment # t) = calls t"
  "calls (MakeDirs d # t) = calls t"
  "calls (OpenWrite p s # t) = calls t"
  "calls (print s # t) = calls t"
  "calls (EnsureBucket b l # t) = EnsureBucket b l # calls t"
  "calls (UploadToGcs b p n # t) = UploadToGcs b p n # calls t"
  "calls (UploadTextToGcs b n s # t) = UploadTextToGcs b n s # calls t"
  "calls (DeleteBlob b n # t) = DeleteBlob b n # calls t"
  "calls (TranscribeVideo p l m u q # t) = TranscribeVideo p l m u q # calls t"
  "calls (TranscribeVideoGenai k p l u m q # t) = TranscribeVideoGenai k p l u m q # calls t"
  by (simp_all add: calls_def print_def)

lemma calls_ensure_bucket_warning [simp]: "calls (ensure_bucket_warning b e) = []"
  by (simp add: ensure_bucket_warning_def)

lemma calls_ensure_bucket [simp]: "calls (snd (ensure_bucket w b l)) = [EnsureBucket b l]"
  by (simp add: ensure_bucket_def Let_def split: sum.splits)

lemma calls_upload_to_gcs [simp]: "calls (snd (upload_to_gcs w b p n)) = [UploadToGcs b p n]"
  by (simp add: upload_to_gcs_def Let_def split: sum.splits)

lemma calls_upload_text_to_gcs [simp]:
  "calls (snd (upload_text_to_gcs w b n s)) = [UploadTextToGcs b n s]"
  by (simp add: upload_text_to_gcs_def Let_def split: sum.splits)

lemma calls_delete_blob [simp]: "calls (snd (delete_blob w b n)) = [DeleteBlob b n]"
  by (simp add: delete_blob_def Let_def split: sum.splits)

lemma calls_transcribe_video_loop [simp]: "calls (snd (transcribe_video_loop s acc)) = []"
  by (induction s arbitrary: acc) (simp_all add: case_prod_beta split: option.splits)

lemma calls_transcribe_video_genai_loop [simp]:
  "calls (snd (transcribe_video_genai_loop s acc)) = []"
  by (induction s arbitrary: acc) (simp_all add: case_prod_beta)

lemma calls_transcribe_video [simp]:
  "calls (snd (transcribe_video w p l m u q)) = [TranscribeVideo p l m u q]"
  by (simp add: transcribe_video_def Let_def case_prod_beta split: sum.splits)

lemma calls_transcribe_video_genai [simp]:
  "calls (snd (transcribe_video_genai w k p l u m q)) = [TranscribeVideoGenai k p l u m q]"
  by (simp add: transcribe_video_genai_def Let_def case_prod_beta split: sum.splits)


lemma calls_dispatch [simp]:
  "calls (snd (dispatch w a p u)) = [inference_call w a p u]"
  by (simp add: dispatch_def inference_call_def)

lemma calls_persist [simp]:
  "calls (fst (snd (persist w a ob text))) =
     (if local_write_ok w a text
      then [UploadTextToGcs ob (sanitize_filename (translit w) (basename (args_file_path a))) text]
      else [])"
  by (simp add: persist_def local_write_ok_def Let_def case_prod_beta split: sum.splits)

lemma calls_cleanup [simp]:
  "calls (cleanup w a sb n) = (if args_keep_gcs a then [] else [DeleteBlob sb n])"
  by (simp add: cleanup_def case_prod_beta split: sum.splits)

lemma calls_process_upload:
  "calls (trace (process_upload w a p sb ob u)) =
     inference_call w a p u
     # (case fst (dispatch w a p u) of
          Inl e \<Rightarrow> []
        | Inr text \<Rightarrow>
           if local_write_ok w a text
           then [UploadTextToGcs ob (sanitize_filename (translit w) (basename (args_file_path a))) text]
           else [])
     @ (if args_keep_gcs a then [] else [DeleteBlob sb (blob_name_of w a)])"
  by (simp add: process_upload_def transcribe_and_persist_def case_prod_beta split: sum.splits)


lemma fst_ensure_bucket:
  "storage_Client w = Inr () \<Longrightarrow> fst (ensure_bucket w b l) = Inr ()"
  by (simp add: ensure_bucket_def Let_def split: sum.splits)

lemma ensure_bucket_no_client:
  "storage_Client w = Inl e \<Longrightarrow> ensure_bucket w b l = (Inl e, [EnsureBucket b l])"
  by (simp add: ensure_bucket_def)

lemma fst_handle_staging_bucket:
  "storage_Client w = Inr () \<Longrightarrow> fst (handle_staging_bucket w a p) = Inr ()"
  by (simp add: handle_staging_bucket_def fst_ensure_bucket)

lemma calls_handle_staging_bucket:
  "calls (snd (handle_staging_bucket w a p)) =
     (if truthy (args_bucket a) then []
      else [EnsureBucket (staging_bucket_name_of w a p) (location_of w a)])"
  by (simp add: handle_staging_bucket_def staging_bucket_name_of_def)

lemma fst_upload_to_gcs:
  "storage_Client w = Inr () \<Longrightarrow>
   fst (upload_to_gcs w b p n) =
     (case blob_upload_from_filename w b n p of
        Inl e \<Rightarrow> Inl e
      | Inr u \<Rightarrow> Inr (''gs://'' @ b @ ''/'' @ n))"
  by (simp add: upload_to_gcs_def Let_def split: sum.splits)

lemma main_reaches_upload:
  "reaches_upload w a \<Longrightarrow> main w a = provision_and_run w a (project_of w a)"
  by (simp add: main_def reaches_upload_def project_of_def Let_def)

lemma provision_and_run_upload_fails:
  assumes "storage_Client w = Inr ()"
    and "blob_upload_from_filename w (staging_bucket_name_of w a p) (blob_name_of w a)
           (args_file_path a) = Inl e"
  shows "provision_and_run w a p =
     \<lparr>exit_code = 1,
      trace = [print (''Using Project: '' @ p @ '', Region: '' @ location_of w a)]
              @ snd (handle_staging_bucket w a p)
              @ snd (ensure_bucket w (get_output_bucket_name p) (location_of w a))
              @ snd (upload_to_gcs w (staging_bucket_name_of w a p) (args_file_path a)
                       (blob_name_of w a))
              @ [print (''Error uploading to GCS: '' @ str_exn e)],
      files = Map.empty\<rparr>"
  using assms
  by (simp add: provision_and_run_def Let_def case_prod_beta fst_ensure_bucket
      fst_handle_staging_bucket fst_upload_to_gcs)

lemma provision_and_run_uploaded:
  assumes "storage_Client w = Inr ()"
    and "blob_upload_from_filename w (staging_bucket_name_of w a p) (blob_name_of w a)
           (args_file_path a) = Inr ()"
  shows "provision_and_run w a p =
     prepend ([print (''Using Project: '' @ p @ '', Region: '' @ location_of w a)]
              @ snd (handle_staging_bucket w a p)
              @ snd (ensure_bucket w (get_output_bucket_name p) (location_of w a))
              @ snd (upload_to_gcs w (staging_bucket_name_of w a p) (args_file_path a)
                       (blob_name_of w a)))
       (process_upload w a p (staging_bucket_name_of w a p) (get_output_bucket_name p)
          (''gs://'' @ staging_bucket_name_of w a p @ ''/'' @ blob_name_of w a))"
  using assms
  by (simp add: provision_and_run_def Let_def case_prod_beta fst_ensure_bucket
      fst_handle_staging_bucket fst_upload_to_gcs)

lemma calls_main_upload_fails:
  assumes "reaches_upload w a" and "\<not> upload_succeeds w a"
  shows "calls (trace (main w a)) =
     (if truthy (args_bucket a) then []
      else [EnsureBucket (staging_of w a) (location_of w a)])
     @ [EnsureBucket (get_output_bucket_name (project_of w a)) (location_of w a),
        UploadToGcs (staging_of w a) (args_file_path a) (blob_name_of w a)]"
proof -
  from assms(2) obtain e where
    "blob_upload_from_filename w (staging_of w a) (blob_name_of w a) (args_file_path a) = Inl e"
    by (cases "blob_upload_from_filename w (staging_of w a) (blob_name_of w a) (args_file_path a)")
       (simp_all add: upload_succeeds_def)
  moreover from assms(1) have "storage_Client w = Inr ()"
    by (simp add: reaches_upload_def)
  ultimately show ?thesis
    using assms(1)
    by (simp add: main_reaches_upload provision_and_run_upload_fails staging_of_def
        calls_handle_staging_bucket)
qed

lemma calls_main_uploaded:
  assumes "reaches_upload w a" and "upload_succeeds w a"
  shows "calls (trace (main w a)) =
     (if truthy (args_bucket a) then []
      else [EnsureBucket (staging_of w a) (location_of w a)])
     @ [EnsureBucket (get_output_bucket_name (project_of w a)) (location_of w a),
        UploadToGcs (staging_of w a) (args_file_path a) (blob_name_of w a)]
     @ calls (trace (process_upload w a (project_of w a) (staging_of w a)
                      (get_output_bucket_name (project_of w a)) (gcs_uri_of w a)))"
proof -
  from assms(1) have "storage_Client w = Inr ()"
    by (simp add: reaches_upload_def)
  with assms show ?thesis
    by (simp add: main_reaches_upload provision_and_run_uploaded staging_of_def
        upload_succeeds_def gcs_uri_of_def prepend_def calls_handle_staging_bucket)
qed

lemma calls_main_not_reached:
  assumes "\<not> reaches_upload w a"
  shows "calls (trace (main w a)) =
     (if os_path_exists w (args_file_path a) \<and> truthy (infer_project_id w a)
         \<and> infer_project_id w a \<noteq> Some ''(unset)''
      then [EnsureBucket (if truthy (args_bucket a) then get_output_bucket_name (project_of w a)
                          else staging_of w a) (location_of w a)]
      else [])"
proof (cases "storage_Client w")
  case (Inl e)
  then show ?thesis
    by (simp add: main_def Let_def provision_and_run_def handle_staging_bucket_def
        ensure_bucket_no_client project_of_def staging_of_def staging_bucket_name_of_def)
next
  case (Inr u)
  with assms show ?thesis
    by (auto simp add: main_def reaches_upload_def)
qed

lemma filter_delete_calls: "filter is_delete_blob (calls t) = filter is_delete_blob t"
proof (induction t)
  case Nil
  show ?case by simp
next
  case (Cons e t)
  then show ?case by (cases e) simp_all
qed

lemma filter_inference_calls: "filter is_inference (calls t) = filter is_inference t"
proof (induction t)
  case Nil
  show ?case by simp
next
  case (Cons e t)
  then show ?case by (cases e) simp_all
qed

lemma filter_variant_b_calls: "filter is_variant_b (calls t) = filter is_variant_b t"
proof (induction t)
  case Nil
  show ?case by simp
next
  case (Cons e t)
  then show ?case by (cases e) simp_all
qed

lemma filter_upload_calls: "filter is_upload (calls t) = filter is_upload t"
proof (induction t)
  case Nil
  show ?case by simp
next
  case (Cons e t)
  then show ?case by (cases e) simp_all
qed

lemma filter_ensures_calls: "filter (ensures b) (calls t) = filter (ensures b) t"
proof (induction t)
  case Nil
  show ?case by simp
next
  case (Cons e t)
  then show ?case by (cases e) simp_all
qed

lemma is_inference_inference_call [simp]: "is_inference (inference_call w a p u)"
  by (simp add: inference_call_def)

lemma is_delete_blob_inference_call [simp]: "\<not> is_delete_blob (inference_call w a p u)"
  by (simp add: inference_call_def)

lemma is_upload_inference_call [simp]: "\<not> is_upload (inference_call w a p u)"
  by (simp add: inference_call_def)

lemma deletes_main:
  "filter is_delete_blob (trace (main w a)) =
     (if reaches_upload w a \<and> upload_succeeds w a \<and> \<not> args_keep_gcs a
      then [DeleteBlob (staging_of w a) (blob_name_of w a)] else [])"
proof -
  have "filter is_delete_blob (calls (trace (main w a))) =
     (if reaches_upload w a \<and> upload_succeeds w a \<and> \<not> args_keep_gcs a
      then [DeleteBlob (staging_of w a) (blob_name_of w a)] else [])"
  proof (cases "reaches_upload w a")
    case False
    then show ?thesis by (simp add: calls_main_not_reached)
  next
    case True
    then show ?thesis
      by (cases "upload_succeeds w a")
         (simp_all add: calls_main_uploaded calls_main_upload_fails calls_process_upload
            split: sum.splits)
  qed
  then show ?thesis by (simp add: filter_delete_calls)
qed

lemma inferences_main:
  "filter is_inference (trace (main w a)) =
     (if reaches_upload w a \<and> upload_succeeds w a
      then [inference_call w a (project_of w a) (gcs_uri_of w a)] else [])"
proof -
  have "filter is_inference (calls (trace (main w a))) =
     (if reaches_upload w a \<and> upload_succeeds w a
      then [inference_call w a (project_of w a) (gcs_uri_of w a)] else [])"
  proof (cases "reaches_upload w a")
    case False
    then show ?thesis by (simp add: calls_main_not_reached)
  next
    case True
    then show ?thesis
      by (cases "upload_succeeds w a")
         (simp_all add: calls_main_uploaded calls_main_upload_fails calls_process_upload
            split: sum.splits)
  qed
  then show ?thesis by (simp add: filter_inference_calls)
qed

section \<open>Exit code, files and output of a run\<close>

lemma uploads_main:
  "reaches_upload w a \<Longrightarrow>
   filter is_upload (trace (main w a)) =
     [UploadToGcs (staging_of w a) (args_file_path a) (blob_name_of w a)]"
proof -
  assume r: "reaches_upload w a"
  have "filter is_upload (calls (trace (main w a))) =
     [UploadToGcs (staging_of w a) (args_file_path a) (blob_name_of w a)]"
    using r
    by (cases "upload_succeeds w a")
       (simp_all add: calls_main_uploaded calls_main_upload_fails calls_process_upload
          split: sum.splits)
  then show ?thesis by (simp add: filter_upload_calls)
qed

lemma calls_before_upload:
  "reaches_upload w a \<Longrightarrow>
   takeWhile (\<lambda>e. \<not> is_upload e) (calls (trace (main w a))) =
     (if truthy (args_bucket a) then []
      else [EnsureBucket (staging_of w a) (location_of w a)])
     @ [EnsureBucket (get_output_bucket_name (project_of w a)) (location_of w a)]"
  by (cases "upload_succeeds w a")
     (simp_all add: calls_main_uploaded calls_main_upload_fails)

lemma upload_attempted_iff:
  "filter is_upload (trace (main w a)) \<noteq> [] \<longleftrightarrow> reaches_upload w a"
proof (cases "reaches_upload w a")
  case True
  then show ?thesis by (simp add: uploads_main)
next
  case False
  then have "filter is_upload (calls (trace (main w a))) = []"
    by (simp add: calls_main_not_reached)
  with False show ?thesis by (simp add: filter_upload_calls)
qed

lemma upload_returns_iff:
  assumes "reaches_upload w a"
  shows "fst (upload_to_gcs w (staging_of w a) (args_file_path a) (blob_name_of w a)) =
           Inr (gcs_uri_of w a) \<longleftrightarrow> upload_succeeds w a"
proof -
  from assms have "storage_Client w = Inr ()"
    by (simp add: reaches_upload_def)
  then show ?thesis
    by (simp add: fst_upload_to_gcs upload_succeeds_def gcs_uri_of_def split: sum.splits)
qed

lemma ensure_bucket_caught:
  assumes "storage_Client w = Inr ()" and "check_or_create_error w b l = Some e"
  shows "fst (ensure_bucket w b l) = Inr ()"
    and "set (ensure_bucket_warning b e) \<subseteq> set (snd (ensure_bucket w b l))"
  using assms
  by (auto simp add: ensure_bucket_def check_or_create_error_def Let_def
      split: sum.splits if_splits)

lemma trace_main_staging:
  assumes "reaches_upload w a"
  shows "set (snd (handle_staging_bucket w a (project_of w a))) \<subseteq> set (trace (main w a))"
proof -
  from assms have c: "storage_Client w = Inr ()"
    by (simp add: reaches_upload_def)
  show ?thesis
  proof (cases "blob_upload_from_filename w (staging_bucket_name_of w a (project_of w a))
                  (blob_name_of w a) (args_file_path a)")
    case (Inl e)
    with assms c show ?thesis
      by (auto simp add: main_reaches_upload provision_and_run_upload_fails)
  next
    case (Inr u)
    with assms c show ?thesis
      by (auto simp add: main_reaches_upload provision_and_run_uploaded prepend_def)
  qed
qed

lemma exit_code_upload_fails:
  assumes "reaches_upload w a" and "\<not> upload_succeeds w a"
  shows "exit_code (main w a) = 1"
proof -
  from assms(2) obtain e where
    "blob_upload_from_filename w (staging_of w a) (blob_name_of w a) (args_file_path a) = Inl e"
    by (cases "blob_upload_from_filename w (staging_of w a) (blob_name_of w a) (args_file_path a)")
       (simp_all add: upload_succeeds_def)
  moreover from assms(1) have "storage_Client w = Inr ()"
    by (simp add: reaches_upload_def)
  ultimately show ?thesis
    using assms(1)
    by (simp add: main_reaches_upload provision_and_run_upload_fails staging_of_def)
qed

lemma main_uploaded:
  assumes "reaches_upload w a" and "upload_succeeds w a"
  shows "exit_code (main w a) =
           exit_code (process_upload w a (project_of w a) (staging_of w a)
                        (get_output_bucket_name (project_of w a)) (gcs_uri_of w a))"
    and "files (main w a) =
           files (process_upload w a (project_of w a) (staging_of w a)
                    (get_output_bucket_name (project_of w a)) (gcs_uri_of w a))"
    and "set (trace (process_upload w a (project_of w a) (staging_of w a)
                (get_output_bucket_name (project_of w a)) (gcs_uri_of w a)))
         \<subseteq> set (trace (main w a))"
proof -
  from assms(1) have "storage_Client w = Inr ()"
    by (simp add: reaches_upload_def)
  with assms have "main w a =
     prepend ([print (''Using Project: '' @ project_of w a @ '', Region: '' @ location_of w a)]
              @ snd (handle_staging_bucket w a (project_of w a))
              @ snd (ensure_bucket w (get_output_bucket_name (project_of w a)) (location_of w a))
              @ snd (upload_to_gcs w (staging_of w a) (args_file_path a) (blob_name_of w a)))
       (process_upload w a (project_of w a) (staging_of w a)
          (get_output_bucket_name (project_of w a)) (gcs_uri_of w a))"
    by (simp add: main_reaches_upload provision_and_run_uploaded staging_of_def
        upload_succeeds_def gcs_uri_of_def)
  then show "exit_code (main w a) =
           exit_code (process_upload w a (project_of w a) (staging_of w a)
                        (get_output_bucket_name (project_of w a)) (gcs_uri_of w a))"
    and "files (main w a) =
           files (process_upload w a (project_of w a) (staging_of w a)
                    (get_output_bucket_name (project_of w a)) (gcs_uri_of w a))"
    and "set (trace (process_upload w a (project_of w a) (staging_of w a)
                (get_output_bucket_name (project_of w a)) (gcs_uri_of w a)))
         \<subseteq> set (trace (main w a))"
    by (auto simp add: prepend_def)
qed

lemma persist_mirror_fails:
  assumes "local_write_ok w a text"
    and "fst (upload_text_to_gcs w ob
                (sanitize_filename (translit w) (basename (args_file_path a))) text) = Inl e"
  shows "fst (persist w a ob text) = Inr ()"
    and "snd (snd (persist w a ob text)) = [local_output_path w a \<mapsto> text]"
    and "print (''Warning: Failed to upload output to GCS: '' @ str_exn e)
           \<in> set (fst (snd (persist w a ob text)))"
  using assms
  by (auto simp add: persist_def local_write_ok_def Let_def case_prod_beta split: sum.splits)

lemma process_upload_mirror_fails:
  assumes "fst (dispatch w a p u) = Inr text"
    and "local_write_ok w a text"
    and "fst (upload_text_to_gcs w ob
                (sanitize_filename (translit w) (basename (args_file_path a))) text) = Inl e"
  shows "exit_code (process_upload w a p sb ob u) = 0"
    and "files (process_upload w a p sb ob u) = [local_output_path w a \<mapsto> text]"
    and "print (''Warning: Failed to upload output to GCS: '' @ str_exn e)
           \<in> set (trace (process_upload w a p sb ob u))"
  using assms(1) persist_mirror_fails [OF assms(2,3)]
  by (simp_all add: process_upload_def transcribe_and_persist_def case_prod_beta
      split: sum.splits)

section \<open>The mock run\<close>

lemmas run_defs =
  reaches_upload_def upload_succeeds_def staging_of_def staging_bucket_name_of_def truthy_def
  get_staging_bucket_name_def get_output_bucket_name_def location_of_def get_gcloud_region_def
  strip_def is_space_def project_of_def infer_project_id_def lower_def lower_char_def
  replace_char_def char_of_eq_iff blob_name_of_def str_int_def digits.simps basename_def
  rfind_def gcs_uri_of_def model_of_def mock_world_def mock_args_def

lemma reaches_upload_mock:
  "reaches_upload (mock_world\<lparr>vertexai_init := f\<rparr>) (mock_args\<lparr>args_keep_gcs := k\<rparr>)"
  by (simp add: reaches_upload_def mock_world_def mock_args_def infer_project_id_def truthy_def)

lemma upload_succeeds_mock:
  "upload_succeeds (mock_world\<lparr>vertexai_init := f\<rparr>) a"
  by (simp add: upload_succeeds_def mock_world_def)

lemma staging_of_mock:
  "staging_of (mock_world\<lparr>vertexai_init := f\<rparr>) (mock_args\<lparr>args_keep_gcs := k\<rparr>) =
     ''gemini-transcriber-example-com-demo-europe-west4''"
  by (simp add: staging_of_def staging_bucket_name_of_def mock_world_def mock_args_def truthy_def
      get_staging_bucket_name_def location_of_def get_gcloud_region_def strip_def is_space_def
      project_of_def infer_project_id_def lower_def lower_char_def replace_char_def
      char_of_eq_iff)

lemma blob_name_of_mock:
  "blob_name_of (mock_world\<lparr>vertexai_init := f\<rparr>) (mock_args\<lparr>args_keep_gcs := k\<rparr>) =
     ''gemini-transcriber-staging/1700000000_Talk One.mp4''"
  by (simp add: blob_name_of_def mock_world_def mock_args_def str_int_def digits.simps
      basename_def rfind_def char_of_eq_iff)

section \<open>Cleanup of the staged blob\<close>

text \<open>
  Claim C1. In every run in which the upload has created the staged blob and
  \<open>--keep-gcs\<close> is not set, \<open>delete_blob\<close> is called exactly once, on the staging bucket
  and the name of the staged blob, whatever the transcription and the persistence do
  afterwards. In every run with \<open>--keep-gcs\<close> set, \<open>delete_blob\<close> is not called at all.
\<close>

theorem staged_blob_deleted_exactly_once:
  "(reaches_upload w a \<and> upload_succeeds w a \<and> \<not> args_keep_gcs a \<longrightarrow>
      filter is_delete_blob (trace (main w a)) =
        [DeleteBlob (staging_of w a) (blob_name_of w a)])
   \<and> (args_keep_gcs a \<longrightarrow> filter is_delete_blob (trace (main w a)) = [])"
  by (simp add: deletes_main)

text \<open>
  The witness is a run whose inference fails at once: the blob is deleted once without
  the flag, and not at all with it.
\<close>

theorem staged_blob_deleted_exactly_once_witness:
  "reaches_upload (mock_world\<lparr>vertexai_init := (\<lambda>p l. Inl (Exception ''quota''))\<rparr>)
     (mock_args\<lparr>args_keep_gcs := False\<rparr>)
   \<and> upload_succeeds (mock_world\<lparr>vertexai_init := (\<lambda>p l. Inl (Exception ''quota''))\<rparr>)
     (mock_args\<lparr>args_keep_gcs := False\<rparr>)
   \<and> \<not> args_keep_gcs (mock_args\<lparr>args_keep_gcs := False\<rparr>)
   \<and> filter is_delete_blob
       (trace (main (mock_world\<lparr>vertexai_init := (\<lambda>p l. Inl (Exception ''quota''))\<rparr>)
                 (mock_args\<lparr>args_keep_gcs := False\<rparr>))) =
       [DeleteBlob ''gemini-transcriber-example-com-demo-europe-west4''
          ''gemini-transcriber-staging/1700000000_Talk One.mp4'']
   \<and> args_keep_gcs (mock_args\<lparr>args_keep_gcs := True\<rparr>)
   \<and> filter is_delete_blob
       (trace (main (mock_world\<lparr>vertexai_init := (\<lambda>p l. Inl (Exception ''quota''))\<rparr>)
                 (mock_args\<lparr>args_keep_gcs := True\<rparr>))) = []"
  using staged_blob_deleted_exactly_once
          [of "mock_world\<lparr>vertexai_init := (\<lambda>p l. Inl (Exception ''quota''))\<rparr>"
              "mock_args\<lparr>args_keep_gcs := False\<rparr>"]
        staged_blob_deleted_exactly_once
          [of "mock_world\<lparr>vertexai_init := (\<lambda>p l. Inl (Exception ''quota''))\<rparr>"
              "mock_args\<lparr>args_keep_gcs := True\<rparr>"]
  by (simp add: reaches_upload_mock upload_succeeds_mock staging_of_mock blob_name_of_mock)

section \<open>Provisioning of the buckets\<close>

text \<open>
  Claim C2, as amended. In every run that gets as far as the upload, the output bucket
  name is derived from the project and \<open>ensure_bucket\<close> is called on it before the
  upload. The staging bucket is the \<open>--bucket\<close> argument when that is given and not
  empty, and then \<open>ensure_bucket\<close> is not called for it; otherwise its name is derived
  from the project and the region and \<open>ensure_bucket\<close> is called on it first. The
  upload goes to the staging bucket, and nothing else is called before it.
\<close>

theorem buckets_ensured_before_upload:
  assumes "reaches_upload w a"
  shows "staging_of w a =
           (if truthy (args_bucket a) then the (args_bucket a)
            else get_staging_bucket_name (project_of w a) (location_of w a))
    \<and> takeWhile (\<lambda>e. \<not> is_upload e) (calls (trace (main w a))) =
        (if truthy (args_bucket a) then []
         else [EnsureBucket (get_staging_bucket_name (project_of w a) (location_of w a))
                 (location_of w a)])
        @ [EnsureBucket (get_output_bucket_name (project_of w a)) (location_of w a)]
    \<and> filter is_upload (trace (main w a)) =
        [UploadToGcs (staging_of w a) (args_file_path a) (blob_name_of w a)]"
  using assms
  by (simp add: calls_before_upload uploads_main)
     (simp add: staging_of_def staging_bucket_name_of_def)

theorem buckets_ensured_before_upload_witness:
  "reaches_upload mock_world mock_args
   \<and> staging_of mock_world mock_args = ''gemini-transcriber-example-com-demo-europe-west4''
   \<and> takeWhile (\<lambda>e. \<not> is_upload e) (calls (trace (main mock_world mock_args))) =
        [EnsureBucket ''gemini-transcriber-example-com-demo-europe-west4'' ''europe-west4'',
         EnsureBucket ''example-com-demo-gemini-video-transcribe'' ''europe-west4'']
   \<and> filter is_upload (trace (main mock_world mock_args)) =
        [UploadToGcs ''gemini-transcriber-example-com-demo-europe-west4'' ''input/Talk One.mp4''
           ''gemini-transcriber-staging/1700000000_Talk One.mp4'']
   \<and> reaches_upload mock_world (mock_args\<lparr>args_bucket := Some ''my-staging''\<rparr>)
   \<and> takeWhile (\<lambda>e. \<not> is_upload e)
         (calls (trace (main mock_world (mock_args\<lparr>args_bucket := Some ''my-staging''\<rparr>)))) =
        [EnsureBucket ''example-com-demo-gemini-video-transcribe'' ''europe-west4'']"
  using buckets_ensured_before_upload [of mock_world mock_args]
        buckets_ensured_before_upload [of mock_world "mock_args\<lparr>args_bucket := Some ''my-staging''\<rparr>"]
  by (simp add: run_defs)

text \<open>
  The claim as stated fails for an explicit bucket: the upload goes to \<open>my-staging\<close>,
  and no call of \<open>ensure_bucket\<close> names it.
\<close>

theorem explicit_bucket_not_ensured:
  "args_bucket (mock_args\<lparr>args_bucket := Some ''my-staging''\<rparr>) = Some ''my-staging''
   \<and> filter is_upload (trace (main mock_world (mock_args\<lparr>args_bucket := Some ''my-staging''\<rparr>))) =
        [UploadToGcs ''my-staging'' ''input/Talk One.mp4''
           ''gemini-transcriber-staging/1700000000_Talk One.mp4'']
   \<and> filter (ensures ''my-staging'')
         (trace (main mock_world (mock_args\<lparr>args_bucket := Some ''my-staging''\<rparr>))) = []"
proof -
  have r: "reaches_upload mock_world (mock_args\<lparr>args_bucket := Some ''my-staging''\<rparr>)"
    by (simp add: run_defs)
  have u: "upload_succeeds mock_world (mock_args\<lparr>args_bucket := Some ''my-staging''\<rparr>)"
    by (simp add: run_defs)
  have "filter (ensures ''my-staging'')
          (calls (trace (main mock_world (mock_args\<lparr>args_bucket := Some ''my-staging''\<rparr>)))) = []"
    by (simp add: calls_main_uploaded [OF r u] calls_process_upload inference_call_def
        split: sum.splits)
       (simp add: run_defs)
  then show ?thesis
    using uploads_main [OF r] by (simp add: filter_ensures_calls) (simp add: run_defs)
qed

section \<open>Accumulation of the streamed fragments\<close>

lemma transcribe_video_loop_strs:
  "transcribe_video_loop (seq_of (map Some fs)) acc =
     (Inr (acc @ concat fs), concat (map (\<lambda>f. [NextFragment, Stdout f]) fs) @ [NextFragment])"
  by (induction fs arbitrary: acc) simp_all

lemma transcribe_video_genai_loop_strs:
  "transcribe_video_genai_loop (seq_of (map Some fs)) acc =
     (Inr (acc @ concat fs),
      concat (map (\<lambda>f. if f = [] then [NextFragment] else [NextFragment, Stdout f]) fs)
      @ [NextFragment])"
  by (induction fs arbitrary: acc) (simp_all add: truthy_def)

lemma fst_transcribe_video_genai_loop:
  "fst (transcribe_video_genai_loop s acc) =
     (case seq_end s of
        None \<Rightarrow> Inr (acc @ concat (map the (filter truthy (fragments s))))
      | Some e \<Rightarrow> Inl e)"
  by (induction s arbitrary: acc) (simp_all add: case_prod_beta split: option.splits)

lemma loops_agree:
  "list_all truthy (fragments s) \<Longrightarrow>
   transcribe_video_loop s acc = transcribe_video_genai_loop s acc"
  by (induction s arbitrary: acc) (auto simp add: truthy_def split: option.splits)

lemma variant_a_raises_on_none:
  "transcribe_video_loop (seq_of [Some ''Hel'', None, Some ''lo'']) [] =
     (Inl concat_none_error, [NextFragment, Stdout ''Hel'', NextFragment, Stdout ''None''])"
  by simp

text \<open>
  Claim C6. Both loops append the fragments in the order of arrival: for the fragments
  \<open>Hel\<close>, \<open>lo \<close>, \<open>world\<close> the result is \<open>Hello world\<close>, and in the trace each
  fragment is printed before the next one is requested from the stream. For the loop of
  \<open>transcribe_video\<close> this holds for every list of texts. With the mocked service
  that streams these three fragments, the transcription that the orchestrator gets from
  either inference function is \<open>Hello world\<close>.
\<close>

theorem fragments_accumulated_in_arrival_order:
  "transcribe_video_loop (seq_of (map Some fs)) acc =
     (Inr (acc @ concat fs), concat (map (\<lambda>f. [NextFragment, Stdout f]) fs) @ [NextFragment])
   \<and> transcribe_video_loop (seq_of [Some ''Hel'', Some ''lo '', Some ''world'']) [] =
     (Inr ''Hello world'',
      [NextFragment, Stdout ''Hel'', NextFragment, Stdout ''lo '', NextFragment, Stdout ''world'',
       NextFragment])
   \<and> transcribe_video_genai_loop (seq_of [Some ''Hel'', Some ''lo '', Some ''world'']) [] =
     (Inr ''Hello world'',
      [NextFragment, Stdout ''Hel'', NextFragment, Stdout ''lo '', NextFragment, Stdout ''world'',
       NextFragment])
   \<and> fst (dispatch mock_world mock_args p u) = Inr ''Hello world''
   \<and> fst (dispatch mock_world (mock_args\<lparr>args_api_key := Some ''secret-key''\<rparr>) p u) =
       Inr ''Hello world''"
  by (simp add: transcribe_video_loop_strs truthy_def dispatch_def transcribe_video_def
      transcribe_video_genai_def mock_world_def mock_args_def)

lemma fst_transcribe_video_genai:
  assumes "genai_Client w key = Inr ()"
    and "models_generate_content_stream w model_name gcs_uri prompt_text = Inr s"
  shows "fst (transcribe_video_genai w key project_id loc gcs_uri model_name prompt_text) =
           fst (transcribe_video_genai_loop s [])"
  using assms
  by (simp add: transcribe_video_genai_def Let_def case_prod_beta split: sum.splits)

lemma fst_transcribe_video:
  assumes "vertexai_init w project_id loc = Inr ()"
    and "GenerativeModel w model_name = Inr ()"
    and "model_generate_content w model_name gcs_uri prompt_text = Inr s"
  shows "fst (transcribe_video w project_id loc model_name gcs_uri prompt_text) =
           fst (transcribe_video_loop s [])"
  using assms
  by (simp add: transcribe_video_def Let_def case_prod_beta split: sum.splits)

text \<open>
  Claim C10. When its client is built and the request returns a stream,
  \<open>transcribe_video_genai\<close> returns the concatenation, in order, of the texts of the
  stream that are neither \<open>None\<close> nor empty (or raises what the stream raises). When
  its calls succeed, \<open>transcribe_video\<close> returns the concatenation of every text, the
  empty ones included. On a stream none of whose fragments is \<open>None\<close> or empty the two
  functions return the same, and their loops give the same result and the same trace.
\<close>

theorem genai_skips_empty_fragments:
  "(genai_Client w key = Inr ()
      \<and> models_generate_content_stream w model_name gcs_uri prompt_text = Inr s \<longrightarrow>
      fst (transcribe_video_genai w key project_id loc gcs_uri model_name prompt_text) =
        (case seq_end s of
           None \<Rightarrow> Inr (concat (map the (filter truthy (fragments s))))
         | Some e \<Rightarrow> Inl e))
   \<and> (vertexai_init w project_id loc = Inr () \<and> GenerativeModel w model_name = Inr ()
      \<and> model_generate_content w model_name gcs_uri prompt_text = Inr (seq_of (map Some fs)) \<longrightarrow>
      fst (transcribe_video w project_id loc model_name gcs_uri prompt_text) = Inr (concat fs))
   \<and> (genai_Client w key = Inr ()
      \<and> models_generate_content_stream w model_name gcs_uri prompt_text = Inr s
      \<and> vertexai_init w project_id loc = Inr () \<and> GenerativeModel w model_name = Inr ()
      \<and> model_generate_content w model_name gcs_uri prompt_text = Inr s
      \<and> list_all truthy (fragments s) \<longrightarrow>
      fst (transcribe_video w project_id loc model_name gcs_uri prompt_text) =
        fst (transcribe_video_genai w key project_id loc gcs_uri model_name prompt_text))
   \<and> fst (transcribe_video_genai_loop s acc) =
     (case seq_end s of
        None \<Rightarrow> Inr (acc @ concat (map the (filter truthy (fragments s))))
      | Some e \<Rightarrow> Inl e)
   \<and> fst (transcribe_video_loop (seq_of (map Some fs)) acc) = Inr (acc @ concat fs)
   \<and> (list_all truthy (fragments s) \<longrightarrow>
        transcribe_video_loop s acc = transcribe_video_genai_loop s acc)"
proof -
  have b: "genai_Client w key = Inr ()
      \<and> models_generate_content_stream w model_name gcs_uri prompt_text = Inr s \<longrightarrow>
      fst (transcribe_video_genai w key project_id loc gcs_uri model_name prompt_text) =
        (case seq_end s of
           None \<Rightarrow> Inr (concat (map the (filter truthy (fragments s))))
         | Some e \<Rightarrow> Inl e)"
    by (simp add: fst_transcribe_video_genai fst_transcribe_video_genai_loop split: option.splits)
  have a: "vertexai_init w project_id loc = Inr () \<and> GenerativeModel w model_name = Inr ()
      \<and> model_generate_content w model_name gcs_uri prompt_text = Inr (seq_of (map Some fs)) \<longrightarrow>
      fst (transcribe_video w project_id loc model_name gcs_uri prompt_text) = Inr (concat fs)"
    by (simp add: fst_transcribe_video transcribe_video_loop_strs)
  have c: "genai_Client w key = Inr ()
      \<and> models_generate_content_stream w model_name gcs_uri prompt_text = Inr s
      \<and> vertexai_init w project_id loc = Inr () \<and> GenerativeModel w model_name = Inr ()
      \<and> model_generate_content w model_name gcs_uri prompt_text = Inr s
      \<and> list_all truthy (fragments s) \<longrightarrow>
      fst (transcribe_video w project_id loc model_name gcs_uri prompt_text) =
        fst (transcribe_video_genai w key project_id loc gcs_uri model_name prompt_text)"
    by (simp add: fst_transcribe_video fst_transcribe_video_genai loops_agree)
  show ?thesis
    using a b c
    by (simp only: fst_transcribe_video_genai_loop transcribe_video_loop_strs fst_conv)
       (simp add: loops_agree)
qed

theorem genai_skips_empty_fragments_witness:
  "genai_Client
     (mock_world\<lparr>models_generate_content_stream :=
        (\<lambda>m u p. Inr (seq_of [Some ''Hel'', None, Some [], Some ''lo'']))\<rparr>) ''secret-key'' = Inr ()
   \<and> fst (transcribe_video_genai
       (mock_world\<lparr>models_generate_content_stream :=
          (\<lambda>m u p. Inr (seq_of [Some ''Hel'', None, Some [], Some ''lo'']))\<rparr>)
       ''secret-key'' ''demo'' ''europe-west4'' ''gs://b/n'' ''gemini-2.5-pro''
       default_prompt_text) = Inr ''Hello''
   \<and> vertexai_init
       (mock_world\<lparr>model_generate_content := (\<lambda>m u p. Inr (seq_of (map Some [''Hel'', [], ''lo''])))\<rparr>)
       ''demo'' ''europe-west4'' = Inr ()
   \<and> fst (transcribe_video
       (mock_world\<lparr>model_generate_content := (\<lambda>m u p. Inr (seq_of (map Some [''Hel'', [], ''lo''])))\<rparr>)
       ''demo'' ''europe-west4'' ''gemini-2.5-pro'' ''gs://b/n'' default_prompt_text) =
       Inr ''Hello''
   \<and> list_all truthy (fragments (seq_of [Some ''Hel'', Some ''lo '', Some ''world'']))
   \<and> fst (transcribe_video mock_world ''demo'' ''europe-west4'' ''gemini-2.5-pro'' ''gs://b/n''
            default_prompt_text) =
      fst (transcribe_video_genai mock_world ''secret-key'' ''demo'' ''europe-west4'' ''gs://b/n''
            ''gemini-2.5-pro'' default_prompt_text)
   \<and> fst (transcribe_video_genai mock_world ''secret-key'' ''demo'' ''europe-west4'' ''gs://b/n''
            ''gemini-2.5-pro'' default_prompt_text) = Inr ''Hello world''
   \<and> transcribe_video_loop (seq_of [Some ''Hel'', Some ''lo '', Some ''world'']) [] =
      transcribe_video_genai_loop (seq_of [Some ''Hel'', Some ''lo '', Some ''world'']) []"
  using genai_skips_empty_fragments
          [of "mock_world\<lparr>models_generate_content_stream :=
                 (\<lambda>m u p. Inr (seq_of [Some ''Hel'', None, Some [], Some ''lo'']))\<rparr>"
              "''secret-key''" "''gemini-2.5-pro''" "''gs://b/n''" default_prompt_text
              "seq_of [Some ''Hel'', None, Some [], Some ''lo'']" "''demo''" "''europe-west4''"
              "[]" "[]"]
        genai_skips_empty_fragments
          [of "mock_world\<lparr>model_generate_content :=
                 (\<lambda>m u p. Inr (seq_of (map Some [''Hel'', [], ''lo''])))\<rparr>"
              "''secret-key''" "''gemini-2.5-pro''" "''gs://b/n''" default_prompt_text
              "seq_of [Some ''Hel'', Some ''lo '', Some ''world'']" "''demo''" "''europe-west4''"
              "[''Hel'', [], ''lo'']" "[]"]
        genai_skips_empty_fragments
          [of mock_world
              "''secret-key''" "''gemini-2.5-pro''" "''gs://b/n''" default_prompt_text
              "seq_of [Some ''Hel'', Some ''lo '', Some ''world'']" "''demo''" "''europe-west4''"
              "[]" "[]"]
  by (simp add: mock_world_def truthy_def)

section \<open>Failures of the storage calls\<close>

text \<open>
  When the staging bucket is ensured, the storage client is built and the existence
  check or the creation raises, \<open>ensure_bucket\<close> catches the exception, prints its two
  warning lines and returns, and the run goes on to the output bucket and then attempts
  the upload. When that upload raises as well, the process ends with exit code 1 and
  neither inference function is called.
\<close>

lemma check_or_create_failure_caught:
  assumes "reaches_upload w a"
    and "\<not> truthy (args_bucket a)"
    and "check_or_create_error w (staging_of w a) (location_of w a) = Some e"
  shows "fst (ensure_bucket w (staging_of w a) (location_of w a)) = Inr ()
    \<and> set (ensure_bucket_warning (staging_of w a) e) \<subseteq> set (trace (main w a))
    \<and> take 3 (calls (trace (main w a))) =
        [EnsureBucket (staging_of w a) (location_of w a),
         EnsureBucket (get_output_bucket_name (project_of w a)) (location_of w a),
         UploadToGcs (staging_of w a) (args_file_path a) (blob_name_of w a)]
    \<and> (\<not> upload_succeeds w a \<longrightarrow>
          exit_code (main w a) = 1 \<and> filter is_inference (trace (main w a)) = [])"
proof -
  from assms(1) have c: "storage_Client w = Inr ()"
    by (simp add: reaches_upload_def)
  have h: "snd (handle_staging_bucket w a (project_of w a)) =
             snd (ensure_bucket w (staging_of w a) (location_of w a))"
    using assms(2) by (simp add: handle_staging_bucket_def staging_of_def staging_bucket_name_of_def)
  have "set (ensure_bucket_warning (staging_of w a) e) \<subseteq> set (trace (main w a))"
    using ensure_bucket_caught(2) [OF c assms(3)] trace_main_staging [OF assms(1)] h
    by simp
  moreover have "fst (ensure_bucket w (staging_of w a) (location_of w a)) = Inr ()"
    by (rule ensure_bucket_caught(1) [OF c assms(3)])
  moreover have "take 3 (calls (trace (main w a))) =
        [EnsureBucket (staging_of w a) (location_of w a),
         EnsureBucket (get_output_bucket_name (project_of w a)) (location_of w a),
         UploadToGcs (staging_of w a) (args_file_path a) (blob_name_of w a)]"
    using assms(1,2)
    by (cases "upload_succeeds w a")
       (simp_all add: calls_main_uploaded calls_main_upload_fails)
  ultimately show ?thesis
    using assms(1) by (simp add: exit_code_upload_fails inferences_main)
qed

lemma check_or_create_failure_caught_mock:
  "reaches_upload
     (mock_world\<lparr>bucket_exists := (\<lambda>b. Inl (Exception ''403 Forbidden'')),
                 blob_upload_from_filename := (\<lambda>b n p. Inl (Exception ''404 Not Found''))\<rparr>)
     mock_args
   \<and> \<not> truthy (args_bucket mock_args)
   \<and> check_or_create_error
       (mock_world\<lparr>bucket_exists := (\<lambda>b. Inl (Exception ''403 Forbidden'')),
                   blob_upload_from_filename := (\<lambda>b n p. Inl (Exception ''404 Not Found''))\<rparr>)
       ''gemini-transcriber-example-com-demo-europe-west4'' ''europe-west4'' =
       Some (Exception ''403 Forbidden'')
   \<and> \<not> upload_succeeds
       (mock_world\<lparr>bucket_exists := (\<lambda>b. Inl (Exception ''403 Forbidden'')),
                   blob_upload_from_filename := (\<lambda>b n p. Inl (Exception ''404 Not Found''))\<rparr>)
       mock_args
   \<and> take 3 (calls (trace (main
       (mock_world\<lparr>bucket_exists := (\<lambda>b. Inl (Exception ''403 Forbidden'')),
                   blob_upload_from_filename := (\<lambda>b n p. Inl (Exception ''404 Not Found''))\<rparr>)
       mock_args))) =
       [EnsureBucket ''gemini-transcriber-example-com-demo-europe-west4'' ''europe-west4'',
        EnsureBucket ''example-com-demo-gemini-video-transcribe'' ''europe-west4'',
        UploadToGcs ''gemini-transcriber-example-com-demo-europe-west4'' ''input/Talk One.mp4''
          ''gemini-transcriber-staging/1700000000_Talk One.mp4'']
   \<and> exit_code (main
       (mock_world\<lparr>bucket_exists := (\<lambda>b. Inl (Exception ''403 Forbidden'')),
                   blob_upload_from_filename := (\<lambda>b n p. Inl (Exception ''404 Not Found''))\<rparr>)
       mock_args) = 1
   \<and> filter is_inference (trace (main
       (mock_world\<lparr>bucket_exists := (\<lambda>b. Inl (Exception ''403 Forbidden'')),
                   blob_upload_from_filename := (\<lambda>b n p. Inl (Exception ''404 Not Found''))\<rparr>)
       mock_args)) = []"
  using check_or_create_failure_caught
          [of "mock_world\<lparr>bucket_exists := (\<lambda>b. Inl (Exception ''403 Forbidden'')),
                 blob_upload_from_filename := (\<lambda>b n p. Inl (Exception ''404 Not Found''))\<rparr>"
              mock_args "Exception ''403 Forbidden''"]
  by (simp add: run_defs check_or_create_error_def)

lemma main_client_fails:
  assumes "os_path_exists w (args_file_path a)"
    and "truthy (infer_project_id w a)"
    and "infer_project_id w a \<noteq> Some ''(unset)''"
    and "\<not> truthy (args_bucket a)"
    and "storage_Client w = Inl e"
  shows "main w a =
     \<lparr>exit_code = 1,
      trace = [print (''Using Project: '' @ project_of w a @ '', Region: '' @ location_of w a),
               EnsureBucket (staging_of w a) (location_of w a),
               Traceback e],
      files = Map.empty\<rparr>"
  using assms
  by (simp add: main_def Let_def provision_and_run_def handle_staging_bucket_def
      ensure_bucket_no_client project_of_def staging_of_def staging_bucket_name_of_def)

text \<open>
  Claim C3. If \<open>ensure_bucket\<close> raises for the staging bucket, the error should be
  caught and the upload still attempted. In the code \<open>ensure_bucket\<close> raises when the
  storage client cannot be built, line 27, before the \<open>try\<close> of line 28: the
  exception leaves \<open>ensure_bucket\<close>, \<open>main\<close> has no handler around the call, and
  the run ends with a traceback and exit code 1 without attempting the upload.
\<close>

theorem client_failure_escapes_ensure_bucket:
  assumes "os_path_exists w (args_file_path a)"
    and "truthy (infer_project_id w a)"
    and "infer_project_id w a \<noteq> Some ''(unset)''"
    and "\<not> truthy (args_bucket a)"
    and "storage_Client w = Inl e"
  shows "ensure_bucket w (staging_of w a) (location_of w a) =
           (Inl e, [EnsureBucket (staging_of w a) (location_of w a)])
    \<and> trace (main w a) =
        [print (''Using Project: '' @ project_of w a @ '', Region: '' @ location_of w a),
         EnsureBucket (staging_of w a) (location_of w a),
         Traceback e]
    \<and> filter is_upload (trace (main w a)) = []
    \<and> exit_code (main w a) = 1"
  using assms(5) by (simp add: main_client_fails [OF assms] ensure_bucket_no_client print_def)

theorem client_failure_escapes_ensure_bucket_witness:
  "os_path_exists (mock_world\<lparr>storage_Client := Inl (Exception ''DefaultCredentialsError'')\<rparr>)
     (args_file_path mock_args)
   \<and> truthy (infer_project_id
       (mock_world\<lparr>storage_Client := Inl (Exception ''DefaultCredentialsError'')\<rparr>) mock_args)
   \<and> \<not> truthy (args_bucket mock_args)
   \<and> ensure_bucket (mock_world\<lparr>storage_Client := Inl (Exception ''DefaultCredentialsError'')\<rparr>)
       ''gemini-transcriber-example-com-demo-europe-west4'' ''europe-west4'' =
       (Inl (Exception ''DefaultCredentialsError''),
        [EnsureBucket ''gemini-transcriber-example-com-demo-europe-west4'' ''europe-west4''])
   \<and> trace (main (mock_world\<lparr>storage_Client := Inl (Exception ''DefaultCredentialsError'')\<rparr>)
              mock_args) =
       [print ''Using Project: Example.com:Demo, Region: europe-west4'',
        EnsureBucket ''gemini-transcriber-example-com-demo-europe-west4'' ''europe-west4'',
        Traceback (Exception ''DefaultCredentialsError'')]
   \<and> filter is_upload
       (trace (main (mock_world\<lparr>storage_Client := Inl (Exception ''DefaultCredentialsError'')\<rparr>)
                 mock_args)) = []
   \<and> exit_code (main (mock_world\<lparr>storage_Client := Inl (Exception ''DefaultCredentialsError'')\<rparr>)
                 mock_args) = 1"
proof -
  let ?w = "mock_world\<lparr>storage_Client := Inl (Exception ''DefaultCredentialsError'')\<rparr>"
  have h1: "os_path_exists ?w (args_file_path mock_args)"
    and h2: "truthy (infer_project_id ?w mock_args)"
    and h3: "infer_project_id ?w mock_args \<noteq> Some ''(unset)''"
    and h4: "\<not> truthy (args_bucket mock_args)"
    and h5: "storage_Client ?w = Inl (Exception ''DefaultCredentialsError'')"
    by (simp_all add: run_defs)
  have s: "staging_of ?w mock_args = ''gemini-transcriber-example-com-demo-europe-west4''"
    and l: "location_of ?w mock_args = ''europe-west4''"
    and p: "project_of ?w mock_args = ''Example.com:Demo''"
    by (simp_all add: run_defs)
  show ?thesis
    using client_failure_escapes_ensure_bucket [OF h1 h2 h3 h4 h5] h1 h2 h4
    by (simp only: s l p) (simp add: print_def)
qed

text \<open>
  Claim C4. When the inference returns a text, the local write succeeds and
  \<open>upload_text_to_gcs\<close> raises, the exception is caught and printed as a warning, the
  process ends with exit code 0, and the file named by \<open>sanitize_filename\<close> of the
  base name of the input, joined to the directory \<open>workspace/output\<close> under the parent
  of the directory of the script, holds exactly that text.
\<close>

theorem mirror_failure_not_fatal:
  assumes "reaches_upload w a" and "upload_succeeds w a"
    and "fst (dispatch w a (project_of w a) (gcs_uri_of w a)) = Inr text"
    and "local_write_ok w a text"
    and "fst (upload_text_to_gcs w (get_output_bucket_name (project_of w a))
                (sanitize_filename (translit w) (basename (args_file_path a))) text) = Inl e"
  shows "exit_code (main w a) = 0
    \<and> print (''Warning: Failed to upload output to GCS: '' @ str_exn e) \<in> set (trace (main w a))
    \<and> files (main w a)
        (os_path_join (os_path_join (dirname (dirname (abspath_file w))) [''workspace'', ''output''])
           [sanitize_filename (translit w) (basename (args_file_path a))]) = Some text"
  using main_uploaded [OF assms(1,2)] process_upload_mirror_fails [OF assms(3,4,5)]
  by (auto simp add: local_output_path_def local_output_dir_def)

lemma dispatch_mock:
  "args_api_key a = None \<Longrightarrow>
   fst (dispatch (mock_world\<lparr>blob_upload_from_string := f\<rparr>) a p u) = Inr ''Hello world''"
  by (simp add: dispatch_def truthy_def transcribe_video_def mock_world_def)

theorem mirror_failure_not_fatal_witness:
  "reaches_upload
     (mock_world\<lparr>blob_upload_from_string := (\<lambda>b n s. Inl (Exception ''503 Unavailable''))\<rparr>)
     mock_args
   \<and> upload_succeeds
     (mock_world\<lparr>blob_upload_from_string := (\<lambda>b n s. Inl (Exception ''503 Unavailable''))\<rparr>)
     mock_args
   \<and> local_write_ok
     (mock_world\<lparr>blob_upload_from_string := (\<lambda>b n s. Inl (Exception ''503 Unavailable''))\<rparr>)
     mock_args ''Hello world''
   \<and> exit_code (main
       (mock_world\<lparr>blob_upload_from_string := (\<lambda>b n s. Inl (Exception ''503 Unavailable''))\<rparr>)
       mock_args) = 0
   \<and> print ''Warning: Failed to upload output to GCS: 503 Unavailable''
       \<in> set (trace (main
       (mock_world\<lparr>blob_upload_from_string := (\<lambda>b n s. Inl (Exception ''503 Unavailable''))\<rparr>)
       mock_args))
   \<and> files (main
       (mock_world\<lparr>blob_upload_from_string := (\<lambda>b n s. Inl (Exception ''503 Unavailable''))\<rparr>)
       mock_args) ''/opt/app/workspace/output/talk_one.txt'' = Some ''Hello world''"
proof -
  let ?w = "mock_world\<lparr>blob_upload_from_string := (\<lambda>b n s. Inl (Exception ''503 Unavailable''))\<rparr>"
  have r: "reaches_upload ?w mock_args" and u: "upload_succeeds ?w mock_args"
    by (simp_all add: run_defs)
  have d: "fst (dispatch ?w mock_args (project_of ?w mock_args) (gcs_uri_of ?w mock_args)) =
             Inr ''Hello world''"
    by (rule dispatch_mock) (simp add: mock_args_def)
  have l: "local_write_ok ?w mock_args ''Hello world''"
    by (simp add: local_write_ok_def mock_world_def)
  have m: "fst (upload_text_to_gcs ?w (get_output_bucket_name (project_of ?w mock_args))
                  (sanitize_filename (translit ?w) (basename (args_file_path mock_args)))
                  ''Hello world'') = Inl (Exception ''503 Unavailable'')"
    by (simp add: upload_text_to_gcs_def mock_world_def)
  have p: "os_path_join (os_path_join (dirname (dirname (abspath_file ?w))) [''workspace'', ''output''])
             [sanitize_filename (translit ?w) (basename (args_file_path mock_args))] =
           ''/opt/app/workspace/output/talk_one.txt''"
    by (simp add: mock_world_def mock_args_def os_path_join_def join2_def dirname_def
        basename_def rfind_def sanitize_filename_def splitext_def lower_def lower_char_def
        replace_char_def char_of_eq_iff)
  show ?thesis
    using mirror_failure_not_fatal [OF r u d l m] r u l
    by (simp only: p str_exn.simps) simp
qed

section \<open>Choice of the inference function\<close>

text \<open>
  Claim C5, as amended. In every run in which the upload has succeeded exactly one
  inference function is called, once: \<open>transcribe_video_genai\<close> when the API key is a
  non-empty string, \<open>transcribe_video\<close> when it is absent or empty.
\<close>

theorem one_variant_by_key_truthiness:
  assumes "reaches_upload w a" and "upload_succeeds w a"
  shows "filter is_inference (trace (main w a)) =
     [if truthy (args_api_key a)
      then TranscribeVideoGenai (the (args_api_key a)) (project_of w a) (location_of w a)
             (gcs_uri_of w a) (model_of a) default_prompt_text
      else TranscribeVideo (project_of w a) (location_of w a) (model_of a) (gcs_uri_of w a)
             default_prompt_text]"
  using assms by (simp add: inferences_main inference_call_def)

theorem one_variant_by_key_truthiness_witness:
  "reaches_upload mock_world (mock_args\<lparr>args_api_key := Some ''secret-key''\<rparr>)
   \<and> upload_succeeds mock_world (mock_args\<lparr>args_api_key := Some ''secret-key''\<rparr>)
   \<and> filter is_inference
        (trace (main mock_world (mock_args\<lparr>args_api_key := Some ''secret-key''\<rparr>))) =
        [TranscribeVideoGenai ''secret-key'' ''Example.com:Demo'' ''europe-west4''
           ''gs://gemini-transcriber-example-com-demo-europe-west4/gemini-transcriber-staging/1700000000_Talk One.mp4''
           ''gemini-2.5-pro'' default_prompt_text]
   \<and> reaches_upload mock_world mock_args
   \<and> upload_succeeds mock_world mock_args
   \<and> filter is_inference (trace (main mock_world mock_args)) =
        [TranscribeVideo ''Example.com:Demo'' ''europe-west4'' ''gemini-2.5-pro''
           ''gs://gemini-transcriber-example-com-demo-europe-west4/gemini-transcriber-staging/1700000000_Talk One.mp4''
           default_prompt_text]"
  using one_variant_by_key_truthiness [of mock_world "mock_args\<lparr>args_api_key := Some ''secret-key''\<rparr>"]
        one_variant_by_key_truthiness [of mock_world mock_args]
  by (simp add: run_defs)

text \<open>
  The claim as stated fails twice: with \<open>--api-key\<close> supplied as the empty string
  the run calls \<open>transcribe_video\<close>, and a run whose upload fails calls neither
  function.
\<close>

theorem empty_key_or_failed_upload_counterexample:
  "args_api_key (mock_args\<lparr>args_api_key := Some []\<rparr>) = Some []
   \<and> filter is_inference (trace (main mock_world (mock_args\<lparr>args_api_key := Some []\<rparr>))) =
        [TranscribeVideo ''Example.com:Demo'' ''europe-west4'' ''gemini-2.5-pro''
           ''gs://gemini-transcriber-example-com-demo-europe-west4/gemini-transcriber-staging/1700000000_Talk One.mp4''
           default_prompt_text]
   \<and> filter is_inference
        (trace (main (mock_world\<lparr>blob_upload_from_filename :=
                                     (\<lambda>b n p. Inl (Exception ''404 Not Found''))\<rparr>)
                  mock_args)) = []"
  by (simp add: inferences_main inference_call_def) (simp add: run_defs)

text \<open>
  Claim C9. With \<open>--api-key\<close> supplied as the empty string no run calls
  \<open>transcribe_video_genai\<close>, and a run that gets past the upload calls
  \<open>transcribe_video\<close>: the choice tests the truthiness of the value.
\<close>

theorem empty_api_key_dispatches_to_variant_a:
  assumes "args_api_key a = Some []"
  shows "filter is_variant_b (trace (main w a)) = []
    \<and> (reaches_upload w a \<and> upload_succeeds w a \<longrightarrow>
         filter is_inference (trace (main w a)) =
           [TranscribeVideo (project_of w a) (location_of w a) (model_of a) (gcs_uri_of w a)
              default_prompt_text])"
proof -
  have fb: "filter is_variant_b (filter is_inference t) = filter is_variant_b t" for t
  proof (induction t)
    case Nil
    show ?case by simp
  next
    case (Cons x t)
    then show ?case by (cases x) simp_all
  qed
  have i: "filter is_inference (trace (main w a)) =
     (if reaches_upload w a \<and> upload_succeeds w a
      then [TranscribeVideo (project_of w a) (location_of w a) (model_of a) (gcs_uri_of w a)
              default_prompt_text]
      else [])"
    using assms by (simp add: inferences_main inference_call_def truthy_def)
  have "filter is_variant_b (filter is_inference (trace (main w a))) = []"
    by (simp only: i) simp
  then have "filter is_variant_b (trace (main w a)) = []"
    by (simp only: fb)
  with i show ?thesis by simp
qed

theorem empty_api_key_dispatches_to_variant_a_witness:
  "args_api_key (mock_args\<lparr>args_api_key := Some []\<rparr>) = Some []
   \<and> reaches_upload mock_world (mock_args\<lparr>args_api_key := Some []\<rparr>)
   \<and> upload_succeeds mock_world (mock_args\<lparr>args_api_key := Some []\<rparr>)
   \<and> filter is_variant_b (trace (main mock_world (mock_args\<lparr>args_api_key := Some []\<rparr>))) = []
   \<and> filter is_inference (trace (main mock_world (mock_args\<lparr>args_api_key := Some []\<rparr>))) =
        [TranscribeVideo ''Example.com:Demo'' ''europe-west4'' ''gemini-2.5-pro''
           ''gs://gemini-transcriber-example-com-demo-europe-west4/gemini-transcriber-staging/1700000000_Talk One.mp4''
           default_prompt_text]"
  using empty_api_key_dispatches_to_variant_a [of "mock_args\<lparr>args_api_key := Some []\<rparr>" mock_world]
  by (simp add: run_defs)

section \<open>Bucket names\<close>

lemma lower_char_not_upper: "\<not> is_upper (lower_char c)"
  by (simp add: lower_char_def is_upper_def Let_def)

lemma lower_char_eq_colon: "lower_char c = CHR '':'' \<longleftrightarrow> c = CHR '':''"
  by (auto simp add: lower_char_def Let_def char_of_eq_iff take_bit_eq_mod)

lemma lower_char_eq_dot: "lower_char c = CHR ''.'' \<longleftrightarrow> c = CHR ''.''"
  by (auto simp add: lower_char_def Let_def char_of_eq_iff take_bit_eq_mod)

lemma lower_char_idem: "lower_char (lower_char c) = lower_char c"
  by (simp add: lower_char_def Let_def)

lemma lower_idem: "lower (lower s) = lower s"
  by (simp add: lower_def lower_char_idem)

lemma colon_in_lower: "CHR '':'' \<in> set (lower s) \<longleftrightarrow> CHR '':'' \<in> set s"
proof
  assume "CHR '':'' \<in> set (lower s)"
  then obtain x where "x \<in> set s" and "lower_char x = CHR '':''"
    by (auto simp add: lower_def)
  then show "CHR '':'' \<in> set s"
    by (simp add: lower_char_eq_colon)
next
  assume "CHR '':'' \<in> set s"
  moreover have "lower_char (CHR '':'') = CHR '':''"
    by (simp add: lower_char_eq_colon)
  ultimately show "CHR '':'' \<in> set (lower s)"
    unfolding lower_def by (metis image_eqI set_map)
qed

lemma dot_in_lower: "CHR ''.'' \<in> set (lower s) \<longleftrightarrow> CHR ''.'' \<in> set s"
proof
  assume "CHR ''.'' \<in> set (lower s)"
  then obtain x where "x \<in> set s" and "lower_char x = CHR ''.''"
    by (auto simp add: lower_def)
  then show "CHR ''.'' \<in> set s"
    by (simp add: lower_char_eq_dot)
next
  assume "CHR ''.'' \<in> set s"
  moreover have "lower_char (CHR ''.'') = CHR ''.''"
    by (simp add: lower_char_eq_dot)
  ultimately show "CHR ''.'' \<in> set (lower s)"
    unfolding lower_def by (metis image_eqI set_map)
qed

lemma safe_project_clean:
  "CHR '':'' \<notin> set (lower (replace_char (CHR ''.'') (CHR ''-'') (replace_char (CHR '':'') (CHR ''-'') p)))"
  "CHR ''.'' \<notin> set (lower (replace_char (CHR ''.'') (CHR ''-'') (replace_char (CHR '':'') (CHR ''-'') p)))"
  by (auto simp add: colon_in_lower dot_in_lower replace_char_def split: if_splits)

lemma lower_append: "lower (a @ b) = lower a @ lower b"
  by (simp add: lower_def)

lemma lower_no_upper: "list_all (\<lambda>c. \<not> is_upper c) (lower t)"
  by (simp add: lower_def list_all_iff lower_char_not_upper)

text \<open>
  The output bucket name has neither a colon nor a dot and is in lower case, for every
  project. The staging bucket name is in lower case too, but it has a colon or a dot
  exactly when the region has one: the region is lowered and nothing in it is replaced.
\<close>

lemma output_bucket_name_clean:
  "CHR '':'' \<notin> set (get_output_bucket_name p)
   \<and> CHR ''.'' \<notin> set (get_output_bucket_name p)
   \<and> lower (get_output_bucket_name p) = get_output_bucket_name p
   \<and> list_all (\<lambda>c. \<not> is_upper c) (get_output_bucket_name p)"
proof -
  have "lower ''-gemini-video-transcribe'' = ''-gemini-video-transcribe''"
    by (simp add: lower_def lower_char_def)
  moreover have "list_all (\<lambda>c. \<not> is_upper c) ''-gemini-video-transcribe''"
    by (simp add: is_upper_def)
  moreover have "list_all (\<lambda>c. \<not> is_upper c) (lower t)" for t
    by (simp add: lower_def list_all_iff lower_char_not_upper)
  moreover have "lower (a @ b) = lower a @ lower b" for a b
    by (simp add: lower_def)
  ultimately show ?thesis
    using safe_project_clean [of p]
    by (simp add: get_output_bucket_name_def Let_def lower_idem)
qed

lemma staging_bucket_name_clean:
  "lower (get_staging_bucket_name p l) = get_staging_bucket_name p l
   \<and> list_all (\<lambda>c. \<not> is_upper c) (get_staging_bucket_name p l)
   \<and> (CHR '':'' \<in> set (get_staging_bucket_name p l) \<longleftrightarrow> CHR '':'' \<in> set l)
   \<and> (CHR ''.'' \<in> set (get_staging_bucket_name p l) \<longleftrightarrow> CHR ''.'' \<in> set l)"
proof -
  have pre: "lower ''gemini-transcriber-'' = ''gemini-transcriber-''"
    and dash: "lower ''-'' = ''-''"
    by (simp_all add: lower_def lower_char_def)
  have eq: "get_staging_bucket_name p l =
        lower (''gemini-transcriber-''
               @ replace_char (CHR ''.'') (CHR ''-'') (replace_char (CHR '':'') (CHR ''-'') p)
               @ ''-'' @ l)"
    by (simp only: get_staging_bucket_name_def Let_def lower_append pre dash)
  have c: "CHR '':'' \<in> set (get_staging_bucket_name p l) \<longleftrightarrow> CHR '':'' \<in> set l"
    unfolding eq colon_in_lower by (auto simp add: replace_char_def split: if_splits)
  have d: "CHR ''.'' \<in> set (get_staging_bucket_name p l) \<longleftrightarrow> CHR ''.'' \<in> set l"
    unfolding eq dot_in_lower by (auto simp add: replace_char_def split: if_splits)
  show ?thesis
    using c d by (simp add: eq lower_idem lower_no_upper)
qed

text \<open>
  Claim C7. For every project and every region the two bucket names should hold neither
  a colon nor a dot and be in lower case. The code at the project \<open>example.com:demo\<close> and
  the region \<open>EU.West1\<close>: the dot of the region stays in the staging bucket name.
\<close>

theorem staging_bucket_name_keeps_region_dot:
  "get_staging_bucket_name ''example.com:demo'' ''EU.West1'' =
     ''gemini-transcriber-example-com-demo-eu.west1''
   \<and> CHR ''.'' \<in> set (get_staging_bucket_name ''example.com:demo'' ''EU.West1'')"
  by (simp add: get_staging_bucket_name_def lower_def lower_char_def replace_char_def
      char_of_eq_iff)

section \<open>Output file names\<close>

lemma rfind_bounds: "- 1 \<le> rfind s c \<and> rfind s c < int (length s)"
proof (cases "c \<in> set s")
  case False
  then show ?thesis by (simp add: rfind_def)
next
  case True
  then have "takeWhile (\<lambda>x. x \<noteq> c) (rev s) \<noteq> rev s"
    by (simp add: takeWhile_eq_all_conv)
  moreover have "length (takeWhile (\<lambda>x. x \<noteq> c) (rev s)) \<le> length (rev s)"
    by (rule length_takeWhile_le)
  ultimately have "length (takeWhile (\<lambda>x. x \<noteq> c) (rev s)) < length (rev s)"
    by (metis le_neq_implies_less takeWhile_eq_take take_all)
  with True show ?thesis by (simp add: rfind_def)
qed

lemma rfind_dot_txt: "rfind (b @ ''.txt'') (CHR ''.'') = int (length b)"
  by (simp add: rfind_def)

lemma rfind_sep_txt: "rfind (b @ ''.txt'') (CHR ''/'') = rfind b (CHR ''/'')"
  by (simp add: rfind_def)

lemma splitext_txt:
  assumes "list_ex (\<lambda>c. c \<noteq> CHR ''.'') (basename b)"
  shows "splitext (b @ ''.txt'') = (b, ''.txt'')"
proof -
  let ?i = "rfind b (CHR ''/'')"
  have bnd: "- 1 \<le> ?i" "?i < int (length b)"
    using rfind_bounds [of b "CHR ''/''"] by simp_all
  then have n: "nat (?i + 1) \<le> length b" by simp
  have k: "nat (int (length b) - (?i + 1)) = length b - nat (?i + 1)"
    using bnd by (simp add: nat_diff_distrib)
  have t: "take (nat (int (length b) - (?i + 1))) (drop (nat (?i + 1)) (b @ ''.txt'')) =
          drop (nat (?i + 1)) b"
    using n by (simp only: k drop_append) simp
  have e: "list_ex (\<lambda>c. c \<noteq> CHR ''.'') (drop (nat (?i + 1)) b)"
    using assms by (simp only: basename_def)
  have g: "int (length b) > ?i"
    using bnd by simp
  show ?thesis
    unfolding splitext_def rfind_dot_txt rfind_sep_txt Let_def t
    using e g by simp
qed

lemma replace_char_absent: "old \<notin> set s \<Longrightarrow> replace_char old new s = s"
  unfolding replace_char_def by (induction s) auto

lemma sanitize_filename_split:
  "splitext x = (b, ext) \<Longrightarrow>
   sanitize_filename tr x =
     replace_char (CHR '' '') (CHR ''_'')
       (lower (case tr b of Inl e \<Rightarrow> b | Inr latin \<Rightarrow> latin)) @ ''.txt''"
  by (simp add: sanitize_filename_def)

lemma sanitize_filename_normal:
  assumes "splitext x = (b, ext)"
    and "(case tr b of Inl e \<Rightarrow> b | Inr latin \<Rightarrow> latin) = b"
    and "lower b = b"
    and "CHR '' '' \<notin> set b"
  shows "sanitize_filename tr x = b @ ''.txt''"
  by (simp only: sanitize_filename_split [OF assms(1)] assms(2) assms(3)
      replace_char_absent [OF assms(4)])

lemma splitext_talk: "splitext ''talk_one.mp4'' = (''talk_one'', ''.mp4'')"
  by (simp add: splitext_def rfind_def)

lemma splitext_dots: "splitext ''...'' = (''...'', [])"
  by (simp add: splitext_def rfind_def)

lemma splitext_dots_txt: "splitext ''....txt'' = (''....txt'', [])"
  by (simp add: splitext_def rfind_def)

text \<open>
  Claim C8, as amended. \<open>sanitize_filename\<close> is a function of the name and of the
  transliteration, with no effect. On a name whose base (the name without its extension)
  is already transliterated, in lower case and free of spaces, and whose last path
  component holds a character other than a dot, the result is the base with \<open>.txt\<close>, and
  applying \<open>sanitize_filename\<close> to that result gives it back.
\<close>

theorem sanitize_filename_idempotent:
  assumes "splitext x = (b, ext)"
    and "(case tr b of Inl e \<Rightarrow> b | Inr latin \<Rightarrow> latin) = b"
    and "lower b = b"
    and "CHR '' '' \<notin> set b"
    and "list_ex (\<lambda>c. c \<noteq> CHR ''.'') (basename b)"
  shows "sanitize_filename tr x = b @ ''.txt''
    \<and> sanitize_filename tr (sanitize_filename tr x) = sanitize_filename tr x"
proof -
  have one: "sanitize_filename tr x = b @ ''.txt''"
    by (rule sanitize_filename_normal [where tr = tr, OF assms(1-4)])
  have two: "sanitize_filename tr (b @ ''.txt'') = b @ ''.txt''"
    by (rule sanitize_filename_normal [where tr = tr, OF splitext_txt [OF assms(5)] assms(2-4)])
  show ?thesis
    by (simp only: one two)
qed

theorem sanitize_filename_idempotent_witness:
  "splitext ''talk_one.mp4'' = (''talk_one'', ''.mp4'')
   \<and> lower ''talk_one'' = ''talk_one''
   \<and> CHR '' '' \<notin> set ''talk_one''
   \<and> list_ex (\<lambda>c. c \<noteq> CHR ''.'') (basename ''talk_one'')
   \<and> sanitize_filename (\<lambda>n. Inr n) ''talk_one.mp4'' = ''talk_one.txt''
   \<and> sanitize_filename (\<lambda>n. Inr n) (sanitize_filename (\<lambda>n. Inr n) ''talk_one.mp4'') =
      sanitize_filename (\<lambda>n. Inr n) ''talk_one.mp4''"
proof -
  have t: "(case (\<lambda>n. Inr n) ''talk_one'' of Inl (e :: exn) \<Rightarrow> ''talk_one'' | Inr latin \<Rightarrow> latin) =
             ''talk_one''"
    by simp
  have l: "lower ''talk_one'' = ''talk_one''"
    by (simp add: lower_def lower_char_def)
  have n: "CHR '' '' \<notin> set ''talk_one''"
    by simp
  have d: "list_ex (\<lambda>c. c \<noteq> CHR ''.'') (basename ''talk_one'')"
    by (simp add: basename_def rfind_def)
  have w: "sanitize_filename (\<lambda>n. Inr n) ''talk_one.mp4'' = ''talk_one'' @ ''.txt''
    \<and> sanitize_filename (\<lambda>n. Inr n) (sanitize_filename (\<lambda>n. Inr n) ''talk_one.mp4'') =
      sanitize_filename (\<lambda>n. Inr n) ''talk_one.mp4''"
    by (rule sanitize_filename_idempotent [where tr = "\<lambda>n. Inr n", OF splitext_talk t l n d])
  have a: "sanitize_filename (\<lambda>n. Inr n) ''talk_one.mp4'' = ''talk_one.txt''"
    using conjunct1 [OF w] by simp
  have b: "sanitize_filename (\<lambda>n. Inr n) (sanitize_filename (\<lambda>n. Inr n) ''talk_one.mp4'') =
      sanitize_filename (\<lambda>n. Inr n) ''talk_one.mp4''"
    by (rule conjunct2 [OF w])
  show ?thesis
    using splitext_talk l n d a b by (intro conjI)
qed

text \<open>
  The claim as stated fails on the file name \<open>...\<close>: its base is the whole name, in
  lower case and without spaces, and the transliteration leaves it alone; the result
  \<open>....txt\<close> starts with dots only, so \<open>os.path.splitext\<close> finds no extension in it
  and the second application appends \<open>.txt\<close> once more.
\<close>

theorem sanitize_filename_not_idempotent_on_dots:
  "splitext ''...'' = (''...'', [])
   \<and> lower ''...'' = ''...''
   \<and> CHR '' '' \<notin> set ''...''
   \<and> sanitize_filename (\<lambda>n. Inr n) ''...'' = ''....txt''
   \<and> sanitize_filename (\<lambda>n. Inr n) (sanitize_filename (\<lambda>n. Inr n) ''...'') = ''....txt.txt''
   \<and> sanitize_filename (\<lambda>n. Inr n) (sanitize_filename (\<lambda>n. Inr n) ''...'')
      \<noteq> sanitize_filename (\<lambda>n. Inr n) ''...''"
proof -
  have l: "lower ''...'' = ''...''" and l': "lower ''....txt'' = ''....txt''"
    by (simp_all add: lower_def lower_char_def)
  have r: "replace_char (CHR '' '') (CHR ''_'') ''...'' = ''...''"
    and r': "replace_char (CHR '' '') (CHR ''_'') ''....txt'' = ''....txt''"
    by (simp_all add: replace_char_def)
  have one: "sanitize_filename (\<lambda>n. Inr n) ''...'' = ''....txt''"
    by (simp add: sanitize_filename_split [OF splitext_dots] l r)
  have two: "sanitize_filename (\<lambda>n. Inr n) ''....txt'' = ''....txt.txt''"
    by (simp add: sanitize_filename_split [OF splitext_dots_txt] l' r')
  show ?thesis
    by (simp add: one two splitext_dots l)
qed

end
